theory Spec2Isabelle
  imports Main "HOL-Library.Sublist"
begin

section \<open>JavaScript values used by the page objects\<close>

text \<open>
  A JavaScript string is a \<^typ>\<open>string\<close>: the bytes of its UTF-8 encoding, so a
  character beyond ASCII is two or three bytes (the no-break space U+00A0 is
  \<open>0xC2 0xA0\<close>). A character of ASCII is one byte, which occurs in no encoding of
  another character, so a search for an ASCII pattern finds the same occurrences in the
  bytes as in the string.

  A thrown JavaScript exception is a value of \<open>error\<close> carrying its \<open>message\<close>; a
  function that can throw returns \<open>error + 'a\<close> (\<open>Inl\<close> is the throw), an \<open>await\<close> of
  a promise without a value returns \<open>error option\<close> (\<open>None\<close> is normal completion).
\<close>

datatype error = Error string | TypeError string | ReferenceError string

fun message :: "error \<Rightarrow> string" where
  "message (Error m) = m"
| "message (TypeError m) = m"
| "message (ReferenceError m) = m"

text \<open>\<open>String.prototype.includes\<close>: the pattern occurs as a contiguous substring.\<close>

fun js_includes :: "string \<Rightarrow> string \<Rightarrow> bool" where
  "js_includes [] t = (t = [])"
| "js_includes (c # s) t = (prefix t (c # s) \<or> js_includes s t)"

text \<open>\<open>String.prototype.toLowerCase\<close> on the letters \<open>A\<close> to \<open>Z\<close>; other characters stay.\<close>

definition toLowerCase_char :: "char \<Rightarrow> char" where
  "toLowerCase_char c =
     (case map_of (zip ''ABCDEFGHIJKLMNOPQRSTUVWXYZ'' ''abcdefghijklmnopqrstuvwxyz'') c of
        Some d \<Rightarrow> d
      | None \<Rightarrow> c)"

definition toLowerCase :: "string \<Rightarrow> string" where
  "toLowerCase s = map toLowerCase_char s"

text \<open>
  The white space of ECMAScript, which \<open>String.prototype.trim\<close> removes: the
  characters TAB, LF, VT, FF, CR and SPACE, the no-break space U+00A0, U+1680, U+2000 to
  U+200A, the line and paragraph separators U+2028 and U+2029, U+202F, U+205F, U+3000
  and the byte order mark U+FEFF, each given by its UTF-8 encoding.
\<close>

definition white_space :: "string list" where
  "white_space =
     [[CHR 0x09], [CHR 0x0A], [CHR 0x0B], [CHR 0x0C], [CHR 0x0D], [CHR 0x20],
      [CHR 0xC2, CHR 0xA0],
      [CHR 0xE1, CHR 0x9A, CHR 0x80],
      [CHR 0xE2, CHR 0x80, CHR 0x80], [CHR 0xE2, CHR 0x80, CHR 0x81],
      [CHR 0xE2, CHR 0x80, CHR 0x82], [CHR 0xE2, CHR 0x80, CHR 0x83],
      [CHR 0xE2, CHR 0x80, CHR 0x84], [CHR 0xE2, CHR 0x80, CHR 0x85],
      [CHR 0xE2, CHR 0x80, CHR 0x86], [CHR 0xE2, CHR 0x80, CHR 0x87],
      [CHR 0xE2, CHR 0x80, CHR 0x88], [CHR 0xE2, CHR 0x80, CHR 0x89],
      [CHR 0xE2, CHR 0x80, CHR 0x8A],
      [CHR 0xE2, CHR 0x80, CHR 0xA8], [CHR 0xE2, CHR 0x80, CHR 0xA9],
      [CHR 0xE2, CHR 0x80, CHR 0xAF],
      [CHR 0xE2, CHR 0x81, CHR 0x9F],
      [CHR 0xE3, CHR 0x80, CHR 0x80],
      [CHR 0xEF, CHR 0xBB, CHR 0xBF]]"

text \<open>
  \<open>trimStart\<close> removes white space characters from the start as long as there is
  one, \<open>trimEnd\<close> from the end; \<open>trim\<close> does both. In UTF-8 the encoding of a
  character is never the end of the encoding of another one, so \<open>trimEnd\<close> removes
  whole characters.
\<close>

function trimStart :: "string \<Rightarrow> string" where
  "trimStart s =
     (case find (\<lambda>w. prefix w s) white_space of
        None \<Rightarrow> s
      | Some w \<Rightarrow> trimStart (drop (length w) s))"
  by pat_completeness auto
termination
proof (relation "measure length")
  show "wf (measure length)" by simp
next
  fix s w
  assume "find (\<lambda>w. prefix w s) white_space = Some w"
  then have "w \<in> set white_space" and p: "prefix w s"
    by (auto simp: find_Some_iff)
  then have "w \<noteq> []" by (auto simp: white_space_def)
  moreover from p obtain zs where "s = w @ zs"
    by (auto simp: prefix_def)
  ultimately have "length (drop (length w) s) < length s"
    by simp
  then show "(drop (length w) s, s) \<in> measure length" by simp
qed

function trimEnd :: "string \<Rightarrow> string" where
  "trimEnd s =
     (case find (\<lambda>w. suffix w s) white_space of
        None \<Rightarrow> s
      | Some w \<Rightarrow> trimEnd (take (length s - length w) s))"
  by pat_completeness auto
termination
proof (relation "measure length")
  show "wf (measure length)" by simp
next
  fix s w
  assume "find (\<lambda>w. suffix w s) white_space = Some w"
  then have "w \<in> set white_space" and p: "suffix w s"
    by (auto simp: find_Some_iff)
  then have "w \<noteq> []" by (auto simp: white_space_def)
  moreover from p obtain zs where "s = zs @ w"
    by (auto simp: suffix_def)
  ultimately have "length (take (length s - length w) s) < length s"
    by simp
  then show "(take (length s - length w) s, s) \<in> measure length" by simp
qed

declare trimStart.simps [simp del] trimEnd.simps [simp del]

definition trim :: "string \<Rightarrow> string" where
  "trim s = trimEnd (trimStart s)"

text \<open>One call of \<open>console.log\<close> or \<open>console.error\<close>: the arguments it is given.\<close>

datatype js_value = Str string | Arr "string list"

type_synonym console = "js_value list list"

section \<open>The browser page seen by the page objects\<close>

text \<open>
  The Playwright page is an external collaborator. One run of a page-object method sees
  it through the calls it makes; \<open>session\<close> records what each of those calls returns
  or throws. \<open>waitForSelector\<close> is the call with \<open>state: 'visible'\<close> and the given
  timeout. \<open>query_all\<close> is \<open>page.$$(selector)\<close>: the element handles found, each given
  by what its \<open>textContent()\<close> returns (\<open>None\<close> is \<open>null\<close>) or throws.
\<close>

record session =
  waitForTimeout :: "nat \<Rightarrow> error option"
  url :: "error + string"
  locator_count :: "string \<Rightarrow> error + nat"
  locator_allTextContents :: "string \<Rightarrow> error + string list"
  waitForSelector :: "string \<Rightarrow> nat \<Rightarrow> error option"
  textContent :: "string \<Rightarrow> error + string option"
  content :: "error + string"
  query_all :: "string \<Rightarrow> error + (error + string option) list"

subsection \<open>BasePage\<close>

definition timeout :: nat where
  "timeout = 30000"

definition waitForElement :: "session \<Rightarrow> string \<Rightarrow> error option" where
  "waitForElement s selector = waitForSelector s selector timeout"

definition getTextContent :: "session \<Rightarrow> string \<Rightarrow> error + string option" where
  "getTextContent s selector =
     (case waitForElement s selector of
        Some e \<Rightarrow> Inl e
      | None \<Rightarrow> textContent s selector)"

definition isElementVisible :: "session \<Rightarrow> string \<Rightarrow> bool" where
  "isElementVisible s selector =
     (case waitForSelector s selector 5000 of
        None \<Rightarrow> True
      | Some e \<Rightarrow> False)"

definition getCurrentUrl :: "session \<Rightarrow> error + string" where
  "getCurrentUrl s = url s"

subsection \<open>RegistrationPage\<close>

definition successMessage :: string where
  "successMessage = ''text=Your account was created successfully''"

definition welcomeMessage :: string where
  "welcomeMessage = ''h1.title''"

definition errorMessage :: string where
  "errorMessage = ''.error''"

definition accountServicesSection :: string where
  "accountServicesSection = ''#accountServices''"

definition usernameParagraph :: string where
  "usernameParagraph = ''p:has-text(\"Your account was created successfully\")''"

text \<open>
  \<open>isRegistrationSuccessful\<close>, the body of its \<open>try\<close> block in three parts. Each part
  returns \<open>Inl e\<close> when a call throws \<open>e\<close>, \<open>Inr (Some (out, b))\<close> when the block
  executes \<open>return b\<close> after printing \<open>out\<close> on the console, and \<open>Inr None\<close> when
  control falls through to the next statement.

  First part: the settle delay, the URL, and the check for error elements while still
  on the registration page.
\<close>

definition check_errors_on_register_page ::
  "session \<Rightarrow> string \<Rightarrow> error + (console \<times> bool) option" where
  "check_errors_on_register_page s currentUrl =
     (if js_includes currentUrl ''register.htm'' then
        (case locator_count s ''.error'' of
           Inl e \<Rightarrow> Inl e
         | Inr errorElements \<Rightarrow>
             if errorElements > 0 then
               (case locator_allTextContents s ''.error'' of
                  Inl e \<Rightarrow> Inl e
                | Inr errorMessages \<Rightarrow>
                    Inr (Some ([[Str ''Registration failed with errors:'', Arr errorMessages]],
                               False)))
             else Inr None)
      else Inr None)"

text \<open>Methods 1 to 3: success message, username paragraph, welcome title.\<close>

definition success_methods_1_to_3 :: "session \<Rightarrow> error + (console \<times> bool) option" where
  "success_methods_1_to_3 s =
     (if isElementVisible s successMessage then
        Inr (Some ([[Str ''Registration success detected: Success message found'']], True))
      else if isElementVisible s usernameParagraph then
        Inr (Some ([[Str ''Registration success detected: Username paragraph found'']], True))
      else if isElementVisible s welcomeMessage then
        (case getTextContent s welcomeMessage of
           Inl e \<Rightarrow> Inl e
         | Inr None \<Rightarrow> Inl (TypeError ''Cannot read properties of null (reading includes)'')
         | Inr (Some welcomeText) \<Rightarrow>
             if js_includes welcomeText ''Welcome'' then
               Inr (Some ([[Str ''Registration success detected: Welcome message found'']], True))
             else Inr None)
      else Inr None)"

text \<open>Methods 4 to 6: account services section, URL change, page content.\<close>

definition success_methods_4_to_6 :: "session \<Rightarrow> string \<Rightarrow> error + console \<times> bool" where
  "success_methods_4_to_6 s currentUrl =
     (if isElementVisible s accountServicesSection then
        Inr ([[Str ''Registration success detected: Account services section found'']], True)
      else if js_includes currentUrl ''overview'' \<or> js_includes currentUrl ''account''
              \<or> \<not> js_includes currentUrl ''register.htm'' then
        Inr ([[Str ''Registration success detected: URL indicates successful registration'']],
             True)
      else
        (case content s of
           Inl e \<Rightarrow> Inl e
         | Inr pageContent \<Rightarrow>
             let hasSuccessContent =
                   (js_includes (toLowerCase pageContent) ''account was created'' \<or>
                    js_includes (toLowerCase pageContent) ''welcome'' \<or>
                    js_includes (toLowerCase pageContent) ''successful'')
             in if hasSuccessContent then
                  Inr ([[Str ''Registration success detected: Page contains success content'']],
                       True)
                else
                  Inr ([[Str ''Registration success not detected with any method''],
                        [Str ''Current URL:'', Str currentUrl]], False)))"

definition isRegistrationSuccessful_try :: "session \<Rightarrow> error + console \<times> bool" where
  "isRegistrationSuccessful_try s =
     (case waitForTimeout s 2000 of
        Some e \<Rightarrow> Inl e
      | None \<Rightarrow>
          (case getCurrentUrl s of
             Inl e \<Rightarrow> Inl e
           | Inr currentUrl \<Rightarrow>
               (case check_errors_on_register_page s currentUrl of
                  Inl e \<Rightarrow> Inl e
                | Inr (Some r) \<Rightarrow> Inr r
                | Inr None \<Rightarrow>
                    (case success_methods_1_to_3 s of
                       Inl e \<Rightarrow> Inl e
                     | Inr (Some r) \<Rightarrow> Inr r
                     | Inr None \<Rightarrow> success_methods_4_to_6 s currentUrl))))"

text \<open>
  The whole method with its \<open>catch\<close>: the console output and the value returned. The
  result type has no error component: every throw of the \<open>try\<close> block ends in
  \<open>return false\<close>.
\<close>

definition isRegistrationSuccessful_console :: "session \<Rightarrow> console \<times> bool" where
  "isRegistrationSuccessful_console s =
     (case isRegistrationSuccessful_try s of
        Inl e \<Rightarrow> ([[Str ''Error checking registration success:'', Str (message e)]], False)
      | Inr r \<Rightarrow> r)"

definition isRegistrationSuccessful :: "session \<Rightarrow> bool" where
  "isRegistrationSuccessful s = snd (isRegistrationSuccessful_console s)"

text \<open>
  \<open>getErrorMessages\<close>: the loop over the element handles, with the array built so
  far. It stops at the first \<open>textContent()\<close> that throws, or that returns \<open>null\<close>
  (then \<open>text.trim()\<close> throws); the first component is that exception.
\<close>

fun collect_error_texts ::
  "(error + string option) list \<Rightarrow> string list \<Rightarrow> error option \<times> string list" where
  "collect_error_texts [] errorMessages = (None, errorMessages)"
| "collect_error_texts (element # errorElements) errorMessages =
     (case element of
        Inl e \<Rightarrow> (Some e, errorMessages)
      | Inr None \<Rightarrow>
          (Some (TypeError ''Cannot read properties of null (reading trim)''), errorMessages)
      | Inr (Some text) \<Rightarrow>
          if trim text \<noteq> [] then
            collect_error_texts errorElements (errorMessages @ [trim text])
          else collect_error_texts errorElements errorMessages)"

text \<open>
  The \<open>catch\<close> only prints; the array declared before the \<open>try\<close> is returned in
  every case.
\<close>

definition getErrorMessages :: "session \<Rightarrow> string list" where
  "getErrorMessages s =
     (case query_all s errorMessage of
        Inl e \<Rightarrow> []
      | Inr errorElements \<Rightarrow> snd (collect_error_texts errorElements []))"

section \<open>Test data\<close>

record userData =
  firstName :: string
  lastName :: string
  address :: string
  city :: string
  state :: string
  zipCode :: string
  phone :: string
  ssn :: string
  username :: string
  password :: string

definition digits36 :: string where
  "digits36 = ''0123456789abcdefghijklmnopqrstuvwxyz''"

definition digit_char :: "nat \<Rightarrow> char" where
  "digit_char d = digits36 ! (d mod 36)"

text \<open>\<open>Number.prototype.toString(radix)\<close> on a non-negative integer, radix 2 to 36.\<close>

function toString_radix :: "nat \<Rightarrow> nat \<Rightarrow> string" where
  "toString_radix radix n =
     (if n < radix \<or> radix < 2 then [digit_char n]
      else toString_radix radix (n div radix) @ [digit_char (n mod radix)])"
  by pat_completeness auto
termination
  by (relation "measure snd") auto

declare toString_radix.simps [simp del]

definition padStart :: "nat \<Rightarrow> char \<Rightarrow> string \<Rightarrow> string" where
  "padStart n c s = replicate (n - length s) c @ s"

text \<open>\<open>s.slice(-a)\<close> and \<open>s.slice(-a, -b)\<close> for positive \<open>a\<close> and \<open>b\<close>.\<close>

definition slice_last :: "nat \<Rightarrow> string \<Rightarrow> string" where
  "slice_last a s = drop (length s - a) s"

definition slice_last_upto :: "nat \<Rightarrow> nat \<Rightarrow> string \<Rightarrow> string" where
  "slice_last_upto a b s = drop (length s - a) (take (length s - b) s)"

text \<open>
  \<open>generateUniqueUser\<close>. Its inputs are what the function reads from outside:
  \<open>timestamp\<close> is \<open>Date.now()\<close>, \<open>randomNum\<close> is
  \<open>Math.floor(Math.random() * 1000)\<close>, and \<open>randomDigits\<close> are the base-36 digits
  that \<open>Math.random().toString(36)\<close> prints after \<open>0.\<close> for the second random
  number; \<open>substr(2, 5)\<close> keeps at most five of them.
\<close>

definition generateUniqueUser :: "nat \<Rightarrow> nat \<Rightarrow> nat list \<Rightarrow> userData" where
  "generateUniqueUser timestamp randomNum randomDigits =
     \<lparr> firstName = ''Test'' @ toString_radix 10 randomNum,
       lastName = ''User'' @ toString_radix 10 randomNum,
       address = toString_radix 10 randomNum @ '' Test Street'',
       city = ''TestCity'',
       state = ''TC'',
       zipCode = padStart 5 CHR ''0'' (toString_radix 10 randomNum),
       phone = ''555-'' @ padStart 3 CHR ''0'' (toString_radix 10 randomNum) @ ''-''
               @ slice_last 4 (toString_radix 10 timestamp),
       ssn = padStart 3 CHR ''0'' (toString_radix 10 randomNum) @ ''-''
             @ slice_last_upto 6 3 (toString_radix 10 timestamp) @ ''-''
             @ slice_last 3 (toString_radix 10 timestamp),
       username = ''u'' @ toString_radix 36 timestamp @ toString_radix 36 randomNum
                  @ map digit_char (take 5 randomDigits),
       password = ''TestPass'' @ toString_radix 10 randomNum @ ''!'' \<rparr>"

section \<open>The retry loop of test TC 001\<close>

text \<open>
  What the browser does during one pass of the loop: the outcome of each page-object
  call the loop makes (\<open>Some e\<close>: the call throws \<open>e\<close>), and the page that
  \<open>isRegistrationSuccessful\<close> and \<open>getErrorMessages\<close> see after the submission.
\<close>

record attempt_browser =
  fillRegistrationForm :: "userData \<Rightarrow> error option"
  validateFormData :: "userData \<Rightarrow> bool"
  submitRegistration :: "error option"
  result_page :: session
  reload :: "error option"
  clickRegisterLink :: "error option"

text \<open>The calls that send data to the browser or navigate, in the order made.\<close>

datatype browser_call = Fill userData | Submit | Reload

definition maxAttempts :: nat where
  "maxAttempts = 3"

definition hasUsernameConflict :: "string list \<Rightarrow> bool" where
  "hasUsernameConflict errorMessages =
     list_ex (\<lambda>msg. js_includes (toLowerCase msg) ''username''
                    \<and> js_includes (toLowerCase msg) ''exists'') errorMessages"

text \<open>
  \<open>testData\<close> is not bound in the scope of the test (the module imports only
  \<open>generateUniqueUser\<close> and \<open>getTestData\<close>), so evaluating
  \<open>testData.generateUniqueUser()\<close> throws a \<open>ReferenceError\<close>.
\<close>

definition freshUserData :: "userData \<Rightarrow> error + userData" where
  "freshUserData userData =
     (if js_includes (username userData) ''testuser_'' then
        Inl (ReferenceError ''testData is not defined'')
      else Inr userData)"

text \<open>
  The \<open>while\<close> loop. \<open>browser n\<close> is the browser during pass \<open>n\<close>. The result is the
  exception that left the loop or the final value of \<open>success\<close>, with the calls made.
\<close>

function registration_loop ::
  "(nat \<Rightarrow> attempt_browser) \<Rightarrow> userData \<Rightarrow> nat \<Rightarrow> bool \<Rightarrow> browser_call list
   \<Rightarrow> (error + bool) \<times> browser_call list" where
  "registration_loop browser userData attempt success calls =
     (if attempt < maxAttempts \<and> \<not> success then
        (let attempt = attempt + 1; b = browser attempt in
         case freshUserData userData of
           Inl e \<Rightarrow> (Inl e, calls)
         | Inr fresh \<Rightarrow>
             (case fillRegistrationForm b fresh of
                Some e \<Rightarrow> (Inl e, calls @ [Fill fresh])
              | None \<Rightarrow>
                  if \<not> validateFormData b fresh then
                    (Inl (Error ''expect(received).toBeTruthy()''), calls @ [Fill fresh])
                  else
                    (case submitRegistration b of
                       Some e \<Rightarrow> (Inl e, calls @ [Fill fresh, Submit])
                     | None \<Rightarrow>
                         if isRegistrationSuccessful (result_page b) then
                           registration_loop browser userData attempt True
                             (calls @ [Fill fresh, Submit])
                         else if hasUsernameConflict (getErrorMessages (result_page b))
                                 \<and> attempt < maxAttempts then
                           (case reload b of
                              Some e \<Rightarrow> (Inl e, calls @ [Fill fresh, Submit, Reload])
                            | None \<Rightarrow>
                                (case clickRegisterLink b of
                                   Some e \<Rightarrow> (Inl e, calls @ [Fill fresh, Submit, Reload])
                                 | None \<Rightarrow>
                                     registration_loop browser userData attempt success
                                       (calls @ [Fill fresh, Submit, Reload])))
                         else (Inr success, calls @ [Fill fresh, Submit]))))
      else (Inr success, calls))"
  by pat_completeness auto
termination
  by (relation "measure (\<lambda>(browser, userData, attempt, success, calls). maxAttempts - attempt)")
    auto

declare registration_loop.simps [simp del]

text \<open>The step function \<open>Fill registration form with valid data\<close> of TC 001.\<close>

definition fill_registration_step ::
  "(nat \<Rightarrow> attempt_browser) \<Rightarrow> userData \<Rightarrow> error option \<times> browser_call list" where
  "fill_registration_step browser userData =
     (case registration_loop browser userData 0 False [] of
        (Inl e, calls) \<Rightarrow> (Some e, calls)
      | (Inr success, calls) \<Rightarrow>
          if \<not> success then
            (Some (Error (''Registration failed after '' @ toString_radix 10 maxAttempts
                          @ '' attempts'')), calls)
          else (None, calls))"

section \<open>The test suite and its run record\<close>

datatype status = RUNNING | PASSED | FAILED

type_synonym date = nat

record step =
  step_name :: string
  step_status :: status
  step_startTime :: date
  step_endTime :: "date option"
  step_result :: "string option"
  step_error :: "string option"

record testCase =
  tc_id :: string
  tc_name :: string
  tc_status :: status
  steps :: "step list"
  tc_startTime :: date
  tc_endTime :: "date option"
  tc_error :: "string option"

record testResults =
  startTime :: date
  endTime :: "date option"
  totalTests :: nat
  passedTests :: nat
  failedTests :: nat
  testCases :: "testCase list"

text \<open>
  What the suite reads from outside. \<open>clock k\<close> is the time given by the \<open>k\<close>-th
  reading of the system clock (\<open>new Date()\<close>, \<open>Date.now()\<close>); the functions below
  pass the number of readings made so far. The \<open>page_\<close> fields are the outcomes of the
  Playwright calls of the five steps: \<open>page_title\<close> by the number of the step that
  calls it, \<open>page_textContent_body\<close> by the occurrence of
  \<open>textContent('body')\<close> in the source, the others by their arguments.
  \<open>chromium_launch\<close> is the outcome of \<open>initialize\<close>, \<open>fs_write_report\<close> that of the
  file-system calls that end \<open>generateReport\<close>.
\<close>

record environment =
  clock :: "nat \<Rightarrow> date"
  chromium_launch :: "error option"
  page_goto :: "string \<Rightarrow> error option"
  page_waitForSelector :: "string \<Rightarrow> nat \<Rightarrow> error option"
  page_title :: "nat \<Rightarrow> error + string"
  page_click :: "string \<Rightarrow> error option"
  page_url :: string
  page_fill :: "string \<Rightarrow> string \<Rightarrow> error option"
  page_content :: "error + string"
  page_waitForTimeout :: "nat \<Rightarrow> error option"
  page_textContent_body :: "nat \<Rightarrow> error + string option"
  page_locator_count :: "string \<Rightarrow> error + nat"
  page_isVisible :: "string \<Rightarrow> error + bool"
  fs_write_report :: "error option"

definition constructor :: "environment \<Rightarrow> nat \<Rightarrow> testResults \<times> nat" where
  "constructor env k =
     (\<lparr> startTime = clock env k, endTime = None, totalTests = 0, passedTests = 0,
        failedTests = 0, testCases = [] \<rparr>, k + 1)"

text \<open>
  \<open>executeStep\<close>. \<open>stepFunction\<close> is the outcome of calling the step's function. The
  result is the local object \<open>step\<close> as it is when the method ends, together with how
  the method ends: \<open>None\<close> for \<open>return step\<close>, \<open>Some e\<close> for \<open>throw error\<close>, in which
  case the caller receives \<open>e\<close> and not the object.
\<close>

definition executeStep ::
  "environment \<Rightarrow> string \<Rightarrow> error + string \<Rightarrow> nat \<Rightarrow> (step \<times> error option) \<times> nat" where
  "executeStep env stepName stepFunction k =
     (let step = \<lparr> step_name = stepName, step_status = RUNNING, step_startTime = clock env k,
                    step_endTime = None, step_result = None, step_error = None \<rparr>;
          (step, thrown) =
            (case stepFunction of
               Inr r \<Rightarrow> (step\<lparr>step_result := Some r, step_status := PASSED\<rparr>, None)
             | Inl error \<Rightarrow>
                 (step\<lparr>step_status := FAILED, step_error := Some (message error)\<rparr>,
                  Some error));
          step = step\<lparr>step_endTime := Some (clock env (k + 1))\<rparr>
      in ((step, thrown), k + 2))"

subsection \<open>The five step functions of TC 001\<close>

definition check_mark :: string where
  "check_mark = [CHR 0xE2, CHR 0x9C, CHR 0x85]"

definition cross_mark :: string where
  "cross_mark = [CHR 0xE2, CHR 0x9D, CHR 0x8C]"

definition success_text :: string where
  "success_text = ''text=Your account was created successfully''"

definition navigate_step :: "environment \<Rightarrow> error + string" where
  "navigate_step env =
     (case page_goto env ''https://parabank.parasoft.com/parabank/index.htm'' of
        Some e \<Rightarrow> Inl e
      | None \<Rightarrow>
          (case page_waitForSelector env ''text=Customer Login'' 10000 of
             Some e \<Rightarrow> Inl e
           | None \<Rightarrow>
               (case page_title env 1 of
                  Inl e \<Rightarrow> Inl e
                | Inr title \<Rightarrow>
                    if \<not> js_includes title ''ParaBank'' then
                      Inl (Error (''Expected ParaBank in title, got: '' @ title))
                    else Inr (''Successfully navigated to ParaBank. Title: '' @ title))))"

definition click_register_step :: "environment \<Rightarrow> error + string" where
  "click_register_step env =
     (case page_click env ''text=Register'' of
        Some e \<Rightarrow> Inl e
      | None \<Rightarrow>
          (case page_waitForSelector env ''text=Signing up is easy!'' 10000 of
             Some e \<Rightarrow> Inl e
           | None \<Rightarrow>
               if \<not> js_includes (page_url env) ''register.htm'' then
                 Inl (Error (''Expected register.htm in URL, got: '' @ page_url env))
               else Inr (''Successfully navigated to registration page: '' @ page_url env)))"

definition testData :: "string \<Rightarrow> userData" where
  "testData uniqueUsername =
     \<lparr> firstName = ''Test'', lastName = ''User'', address = ''123 Test Street'',
       city = ''Test City'', state = ''CA'', zipCode = ''12345'', phone = ''555-123-4567'',
       ssn = ''123-45-6789'', username = uniqueUsername, password = ''TestPass123!'' \<rparr>"

fun fill_fields :: "environment \<Rightarrow> (string \<times> string) list \<Rightarrow> error option" where
  "fill_fields env [] = None"
| "fill_fields env ((selector, v) # rest) =
     (case page_fill env selector v of
        Some e \<Rightarrow> Some e
      | None \<Rightarrow> fill_fields env rest)"

definition fill_form_step :: "environment \<Rightarrow> string \<Rightarrow> error + string" where
  "fill_form_step env uniqueUsername =
     (let d = testData uniqueUsername in
      case fill_fields env
             [(''[name=\"customer.firstName\"]'', firstName d),
              (''[name=\"customer.lastName\"]'', lastName d),
              (''[name=\"customer.address.street\"]'', address d),
              (''[name=\"customer.address.city\"]'', city d),
              (''[name=\"customer.address.state\"]'', state d),
              (''[name=\"customer.address.zipCode\"]'', zipCode d),
              (''[name=\"customer.phoneNumber\"]'', phone d),
              (''[name=\"customer.ssn\"]'', ssn d),
              (''[name=\"customer.username\"]'', username d),
              (''[name=\"customer.password\"]'', password d),
              (''[name=\"repeatedPassword\"]'', password d)] of
        Some e \<Rightarrow> Inl e
      | None \<Rightarrow> Inr (''Form filled with username: '' @ uniqueUsername))"

text \<open>
  \<open>page.textContent('body').catch(() => '')\<close>: a rejection becomes the empty string;
  a \<open>null\<close> result stays and makes the following \<open>includes\<close> throw.
\<close>

definition body_text :: "environment \<Rightarrow> nat \<Rightarrow> error + string" where
  "body_text env i =
     (case page_textContent_body env i of
        Inl e \<Rightarrow> Inr []
      | Inr None \<Rightarrow> Inl (TypeError ''Cannot read properties of null (reading includes)'')
      | Inr (Some t) \<Rightarrow> Inr t)"

definition submit_step :: "environment \<Rightarrow> error + string" where
  "submit_step env =
     (case page_click env ''input[value=\"Register\"]'' of
        Some e \<Rightarrow> Inl e
      | None \<Rightarrow>
          (case page_waitForSelector env success_text 60000 of
             None \<Rightarrow> Inr ''Registration form submitted successfully''
           | Some error \<Rightarrow>
               (case page_content env of
                  Inl e \<Rightarrow> Inl e
                | Inr pageContent \<Rightarrow>
                    if js_includes pageContent ''Verifying you are human''
                       \<or> js_includes pageContent ''Just a moment'' then
                      (case page_waitForTimeout env 15000 of
                         Some e \<Rightarrow> Inl e
                       | None \<Rightarrow>
                           (case page_waitForSelector env success_text 45000 of
                              Some e \<Rightarrow> Inl e
                            | None \<Rightarrow> Inr ''Registration form submitted successfully''))
                    else
                      (case body_text env 1 of
                         Inl e \<Rightarrow> Inl e
                       | Inr welcomeText \<Rightarrow>
                           if js_includes welcomeText ''Welcome''
                              \<and> js_includes welcomeText ''Your account was created'' then
                             Inr ''Registration successful - found via alternative text check''
                           else Inl error))))"

text \<open>The three entries of \<open>verifications\<close> in the last step.\<close>

definition verify_title :: "string \<Rightarrow> string" where
  "verify_title pageTitle =
     (if js_includes pageTitle ''Customer Created'' \<or> js_includes pageTitle ''ParaBank'' then
        check_mark @ '' Page title indicates successful registration''
      else cross_mark @ '' Unexpected page title: '' @ pageTitle)"

definition verify_welcome :: "environment \<Rightarrow> string \<Rightarrow> error + string" where
  "verify_welcome env uniqueUsername =
     (let welcomeVisible =
            (case page_isVisible env (''text=Welcome '' @ uniqueUsername) of
               Inl e \<Rightarrow> False
             | Inr b \<Rightarrow> b)
      in if welcomeVisible then
           Inr (check_mark @ '' Welcome message for '' @ uniqueUsername @ '' displayed'')
         else
           (case body_text env 2 of
              Inl e \<Rightarrow> Inl e
            | Inr anyWelcome \<Rightarrow>
                if js_includes anyWelcome ''Welcome'' then
                  Inr (check_mark @ '' General welcome message found (user may be logged in)'')
                else Inr (cross_mark @ '' No welcome message found'')))"

definition verify_success :: "environment \<Rightarrow> bool \<Rightarrow> error + string" where
  "verify_success env hasSuccessMessage =
     (if hasSuccessMessage then Inr (check_mark @ '' Success message displayed'')
      else
        (case body_text env 3 of
           Inl e \<Rightarrow> Inl e
         | Inr bodyText \<Rightarrow>
             if js_includes bodyText ''successfully'' \<or> js_includes bodyText ''created'' then
               Inr (check_mark @ '' Success indicators found in page content'')
             else Inr (cross_mark @ '' No clear success message found'')))"

definition find_welcome :: "environment \<Rightarrow> string \<Rightarrow> error option" where
  "find_welcome env uniqueUsername =
     (case page_waitForSelector env (''text=Welcome '' @ uniqueUsername) 10000 of
        None \<Rightarrow> None
      | Some error \<Rightarrow>
          (case page_locator_count env ''text=Welcome'' of
             Inl e \<Rightarrow> Some e
           | Inr n \<Rightarrow>
               if \<not> n > 0 then
                 Some (Error (''Welcome message for '' @ uniqueUsername
                              @ '' not found after registration''))
               else None))"

definition verify_step :: "environment \<Rightarrow> string \<Rightarrow> error + string" where
  "verify_step env uniqueUsername =
     (case page_title env 5 of
        Inl e \<Rightarrow> Inl e
      | Inr pageTitle \<Rightarrow>
          (case find_welcome env uniqueUsername of
             Some e \<Rightarrow> Inl e
           | None \<Rightarrow>
               (case page_locator_count env success_text of
                  Inl e \<Rightarrow> Inl e
                | Inr n \<Rightarrow>
                    (case verify_welcome env uniqueUsername of
                       Inl e \<Rightarrow> Inl e
                     | Inr w \<Rightarrow>
                         (case verify_success env (n > 0) of
                            Inl e \<Rightarrow> Inl e
                          | Inr m \<Rightarrow>
                              Inr (verify_title pageTitle @ [CHR 0x0A] @ w @ [CHR 0x0A] @ m))))))"

subsection \<open>runTestCase001\<close>

text \<open>
  The statement \<open>testCase.steps.push(await this.executeStep(name, fn))\<close>: the step is
  appended only when \<open>executeStep\<close> returns; when it throws, the exception goes on to
  the \<open>catch\<close> of the test case.
\<close>

definition push_step ::
  "environment \<Rightarrow> string \<Rightarrow> error + string \<Rightarrow> testCase \<Rightarrow> nat
   \<Rightarrow> error option \<times> testCase \<times> nat" where
  "push_step env stepName stepFunction testCase k =
     (case executeStep env stepName stepFunction k of
        ((step, None), k') \<Rightarrow> (None, testCase\<lparr>steps := steps testCase @ [step]\<rparr>, k')
      | ((step, Some e), k') \<Rightarrow> (Some e, testCase, k'))"

text \<open>The steps of the \<open>try\<close> block, up to the last \<open>executeStep\<close>.\<close>

definition runTestCase001_steps ::
  "environment \<Rightarrow> testCase \<Rightarrow> nat \<Rightarrow> error option \<times> testCase \<times> nat" where
  "runTestCase001_steps env testCase k =
     (case push_step env ''Navigate to ParaBank homepage'' (navigate_step env) testCase k of
        (Some e, r) \<Rightarrow> (Some e, r)
      | (None, testCase, k) \<Rightarrow>
     (case push_step env ''Click on Register link'' (click_register_step env) testCase k of
        (Some e, r) \<Rightarrow> (Some e, r)
      | (None, testCase, k) \<Rightarrow>
     (let timestamp = clock env k;
          k = k + 1;
          uniqueUsername = ''testuser'' @ toString_radix 10 timestamp
      in
     (case push_step env ''Fill registration form with test data''
             (fill_form_step env uniqueUsername) testCase k of
        (Some e, r) \<Rightarrow> (Some e, r)
      | (None, testCase, k) \<Rightarrow>
     (case push_step env ''Submit registration form'' (submit_step env) testCase k of
        (Some e, r) \<Rightarrow> (Some e, r)
      | (None, testCase, k) \<Rightarrow>
          push_step env ''Verify welcome message with username''
            (verify_step env uniqueUsername) testCase k)))))"

text \<open>
  The whole method: the new test case, the \<open>try\<close> block with its \<open>catch\<close> (the
  screenshot is best effort, its failure is only printed), and the two statements
  after it. It returns the test case; the run record is the updated \<open>this.testResults\<close>.
\<close>

definition runTestCase001 ::
  "environment \<Rightarrow> testResults \<Rightarrow> nat \<Rightarrow> testCase \<times> testResults \<times> nat" where
  "runTestCase001 env r k =
     (let testCase = \<lparr> tc_id = ''TC 001'',
                        tc_name = ''Verify that user can register a new customer'',
                        tc_status = RUNNING, steps = [], tc_startTime = clock env k,
                        tc_endTime = None, tc_error = None \<rparr>;
          k = k + 1;
          (testCase, r, k) =
            (case runTestCase001_steps env testCase k of
               (None, testCase, k) \<Rightarrow>
                 (testCase\<lparr>tc_status := PASSED, tc_endTime := Some (clock env k)\<rparr>,
                  r\<lparr>passedTests := passedTests r + 1\<rparr>, k + 1)
             | (Some error, testCase, k) \<Rightarrow>
                 (testCase\<lparr>tc_status := FAILED, tc_error := Some (message error),
                           tc_endTime := Some (clock env k)\<rparr>,
                  r\<lparr>failedTests := failedTests r + 1\<rparr>, k + 1));
          r = r\<lparr>testCases := testCases r @ [testCase]\<rparr>;
          r = r\<lparr>totalTests := totalTests r + 1\<rparr>
      in (testCase, r, k))"

subsection \<open>run\<close>

text \<open>
  \<open>generateReport\<close> builds the report text from the run record without changing it and
  writes it to disk; only the writing can throw. \<open>run\<close> ends the process inside its
  \<open>try\<close> or its \<open>catch\<close> with \<open>process.exit\<close>; the result is the exit status and the
  run record at that moment.
\<close>

definition generateReport :: "environment \<Rightarrow> testResults \<Rightarrow> error option" where
  "generateReport env r = fs_write_report env"

definition run :: "environment \<Rightarrow> testResults \<Rightarrow> nat \<Rightarrow> nat \<times> testResults" where
  "run env r k =
     (case chromium_launch env of
        Some error \<Rightarrow> (1, r)
      | None \<Rightarrow>
          (case runTestCase001 env r k of
             (testCase, r, k) \<Rightarrow>
               (case generateReport env r of
                  Some error \<Rightarrow> (1, r)
                | None \<Rightarrow> if failedTests r > 0 then (1, r) else (0, r))))"

text \<open>The script: \<open>new ParaBankTestSuite()\<close> followed by \<open>run()\<close>.\<close>

definition main :: "environment \<Rightarrow> nat \<times> testResults" where
  "main env = (case constructor env 0 of (r, k) \<Rightarrow> run env r k)"

subsection \<open>The invariant of the run record\<close>

text \<open>
  The counts agree with each other and with the list of test cases, and every test
  case in the list is finished.
\<close>

definition run_record_invariant :: "testResults \<Rightarrow> bool" where
  "run_record_invariant r \<longleftrightarrow>
     totalTests r = passedTests r + failedTests r
     \<and> totalTests r = length (testCases r)
     \<and> (\<forall>c \<in> set (testCases r).
           (tc_status c = PASSED \<or> tc_status c = FAILED) \<and> tc_endTime c \<noteq> None)"

section \<open>Example pages and environments\<close>

text \<open>The registration form as first shown: no error element, nothing of a success page.\<close>

definition blank_page :: session where
  "blank_page =
     \<lparr> waitForTimeout = (\<lambda>ms. None),
       url = Inr ''https://parabank.parasoft.com/parabank/register.htm'',
       locator_count = (\<lambda>selector. Inr 0),
       locator_allTextContents = (\<lambda>selector. Inr []),
       waitForSelector = (\<lambda>selector ms. Some (Error ''Timeout 5000ms exceeded'')),
       textContent = (\<lambda>selector. Inr (Some [])),
       content = Inr ''<html><body>Signing up is easy!</body></html>'',
       query_all = (\<lambda>selector. Inr []) \<rparr>"

text \<open>Still on the registration page, one error element, and every success element too.\<close>

definition rejected_page :: session where
  "rejected_page =
     blank_page
       \<lparr> locator_count := (\<lambda>selector. Inr 1),
         locator_allTextContents := (\<lambda>selector. Inr [''This username already exists.'']),
         waitForSelector := (\<lambda>selector ms. None),
         textContent := (\<lambda>selector. Inr (Some ''Welcome john'')),
         content := Inr ''<p>Your account was created successfully.</p>'' \<rparr>"

text \<open>A page that was closed: every call throws.\<close>

definition closed_page :: session where
  "closed_page =
     \<lparr> waitForTimeout = (\<lambda>ms. Some (Error ''Target closed'')),
       url = Inl (Error ''Target closed''),
       locator_count = (\<lambda>selector. Inl (Error ''Target closed'')),
       locator_allTextContents = (\<lambda>selector. Inl (Error ''Target closed'')),
       waitForSelector = (\<lambda>selector ms. Some (Error ''Target closed'')),
       textContent = (\<lambda>selector. Inl (Error ''Target closed'')),
       content = Inl (Error ''Target closed''),
       query_all = (\<lambda>selector. Inl (Error ''Target closed'')) \<rparr>"

text \<open>
  The account services section is visible; the title is found by the visibility check
  with its 5000 ms, but the wait of \<open>getTextContent\<close> that follows times out.
\<close>

definition title_unreadable_page :: session where
  "title_unreadable_page =
     blank_page
       \<lparr> waitForSelector :=
           (\<lambda>selector ms.
              if selector = accountServicesSection \<or> (selector = welcomeMessage \<and> ms = 5000)
              then None
              else Some (Error ''Timeout exceeded'')) \<rparr>"

text \<open>The registration page with the success sentence in its text, and no element found.\<close>

definition created_text_page :: session where
  "created_text_page =
     blank_page \<lparr> content := Inr ''<p>Your account was created successfully.</p>'' \<rparr>"

text \<open>As \<open>title_unreadable_page\<close>, but the title is not found at all.\<close>

definition services_page :: session where
  "services_page =
     blank_page
       \<lparr> waitForSelector :=
           (\<lambda>selector ms. if selector = accountServicesSection then None
                           else Some (Error ''Timeout exceeded'')) \<rparr>"

text \<open>Two error elements; reading the text of the second one throws.\<close>

definition partial_errors_page :: session where
  "partial_errors_page =
     blank_page
       \<lparr> query_all :=
           (\<lambda>selector. Inr [Inr (Some '' This username already exists. ''),
                            Inl (Error ''Element is not attached to the DOM'')]) \<rparr>"

text \<open>
  Five error elements: a no-break space only, a message between no-break spaces, a
  message followed by a space, a \<open>null\<close> text, and one more message.
\<close>

definition no_break_space :: string where
  "no_break_space = [CHR 0xC2, CHR 0xA0]"

definition blank_error_page :: session where
  "blank_error_page =
     blank_page
       \<lparr> query_all :=
           (\<lambda>selector.
              Inr [Inr (Some no_break_space),
                   Inr (Some (no_break_space @ ''Username already exists.'' @ no_break_space)),
                   Inr (Some ''Passwords did not match. ''),
                   Inr None, Inr (Some ''not read'')]) \<rparr>"

text \<open>The registration page after a submission that met a username conflict.\<close>

definition conflict_page :: session where
  "conflict_page =
     blank_page
       \<lparr> locator_count := (\<lambda>selector. Inr 1),
         locator_allTextContents := (\<lambda>selector. Inr [''This username already exists.'']),
         query_all := (\<lambda>selector. Inr [Inr (Some ''This username already exists.'')]) \<rparr>"

text \<open>A browser on which every pass of the retry loop ends in that conflict.\<close>

definition conflict_browser :: "nat \<Rightarrow> attempt_browser" where
  "conflict_browser n =
     \<lparr> fillRegistrationForm = (\<lambda>u. None), validateFormData = (\<lambda>u. True),
       submitRegistration = None, result_page = conflict_page, reload = None,
       clickRegisterLink = None \<rparr>"

text \<open>
  The user generated at 1700000000000 ms, with 42 for \<open>randomNum\<close> and a second random
  number whose base-36 digits are 7, 30, 0, 19, 11.
\<close>

definition first_user :: userData where
  "first_user = generateUniqueUser 1700000000000 42 [7, 30, 0, 19, 11]"

text \<open>Pages on which one call of the detector throws.\<close>

definition count_fails_page :: session where
  "count_fails_page = blank_page \<lparr> locator_count := (\<lambda>selector. Inl (Error ''Target closed'')) \<rparr>"

definition content_fails_page :: session where
  "content_fails_page = blank_page \<lparr> content := Inl (Error ''Target closed'') \<rparr>"

text \<open>
  An environment in which every step of TC 001 passes; the same with a report file that
  cannot be written; the same with a home page that cannot be reached.
\<close>

definition happy_environment :: environment where
  "happy_environment =
     \<lparr> clock = (\<lambda>k. 1700000000000 + k),
       chromium_launch = None,
       page_goto = (\<lambda>address. None),
       page_waitForSelector = (\<lambda>selector ms. None),
       page_title = (\<lambda>i. Inr ''ParaBank | Customer Created''),
       page_click = (\<lambda>selector. None),
       page_url = ''https://parabank.parasoft.com/parabank/register.htm'',
       page_fill = (\<lambda>selector v. None),
       page_content = Inr [],
       page_waitForTimeout = (\<lambda>ms. None),
       page_textContent_body = (\<lambda>i. Inr (Some [])),
       page_locator_count = (\<lambda>selector. Inr 1),
       page_isVisible = (\<lambda>selector. Inr True),
       fs_write_report = None \<rparr>"

definition unwritable_environment :: environment where
  "unwritable_environment =
     happy_environment \<lparr> fs_write_report := Some (Error ''EACCES: permission denied'') \<rparr>"

definition offline_environment :: environment where
  "offline_environment =
     happy_environment \<lparr> page_goto := (\<lambda>address. Some (Error ''net::ERR_NAME_NOT_RESOLVED'')) \<rparr>"

section \<open>Strings\<close>

lemma js_includes_sublist: "js_includes s t = sublist t s"
  by (induction s) (auto simp: sublist_Cons_right)

lemma js_includes_suffix: "suffix t s \<Longrightarrow> js_includes s t"
  by (simp add: js_includes_sublist)

lemma js_includes_toLowerCase:
  "js_includes s t \<Longrightarrow> js_includes (toLowerCase s) (toLowerCase t)"
  by (simp add: js_includes_sublist toLowerCase_def map_mono_sublist)

lemma js_includes_trans:
  "js_includes s t \<Longrightarrow> js_includes t p \<Longrightarrow> js_includes s p"
  unfolding js_includes_sublist by (rule sublist_order.order_trans)

lemma lower_success_sentence:
  "toLowerCase ''Your account was created successfully''
     = ''your account was created successfully''"
  by (simp add: toLowerCase_def toLowerCase_char_def)

lemma success_sentence_has_success_content:
  assumes "js_includes c ''Your account was created successfully''"
  shows "js_includes (toLowerCase c) ''account was created''"
proof -
  have "js_includes (toLowerCase c) ''your account was created successfully''"
    using js_includes_toLowerCase [OF assms] by (simp only: lower_success_sentence)
  moreover have "js_includes ''your account was created successfully'' ''account was created''"
    by simp
  ultimately show ?thesis by (rule js_includes_trans)
qed

section \<open>The outcome detector\<close>

lemmas detector_defs =
  isRegistrationSuccessful_def isRegistrationSuccessful_console_def
  isRegistrationSuccessful_try_def getCurrentUrl_def check_errors_on_register_page_def
  success_methods_1_to_3_def success_methods_4_to_6_def

lemmas selector_defs =
  successMessage_def usernameParagraph_def welcomeMessage_def accountServicesSection_def
  errorMessage_def

lemma check_errors_returns_false:
  "check_errors_on_register_page s u = Inr (Some (out, b)) \<Longrightarrow> b = False"
  by (auto simp: check_errors_on_register_page_def split: if_splits sum.splits)

text \<open>
  Claim C1. Whenever the current URL contains \<open>register.htm\<close> and the count of
  \<open>.error\<close> elements is not zero, \<open>isRegistrationSuccessful\<close> returns false, whatever
  the success elements, the title text and the page content are: the rejection check
  comes before every success signal.
\<close>

theorem rejection_precedes_success_signals:
  assumes "url s = Inr currentUrl"
    and "js_includes currentUrl ''register.htm''"
    and "locator_count s ''.error'' = Inr n"
    and "0 < n"
  shows "isRegistrationSuccessful s = False"
  using assms
  by (simp add: isRegistrationSuccessful_def isRegistrationSuccessful_console_def
      isRegistrationSuccessful_try_def getCurrentUrl_def check_errors_on_register_page_def
      split: option.split sum.split)

theorem rejection_precedes_success_signals_witness:
  "url rejected_page = Inr ''https://parabank.parasoft.com/parabank/register.htm''
   \<and> js_includes ''https://parabank.parasoft.com/parabank/register.htm'' ''register.htm''
   \<and> locator_count rejected_page ''.error'' = Inr 1
   \<and> isElementVisible rejected_page successMessage
   \<and> isElementVisible rejected_page usernameParagraph
   \<and> isElementVisible rejected_page welcomeMessage
   \<and> isElementVisible rejected_page accountServicesSection
   \<and> isRegistrationSuccessful rejected_page = False"
  using rejection_precedes_success_signals
    [of rejected_page "''https://parabank.parasoft.com/parabank/register.htm''" 1]
  by (simp add: rejected_page_def blank_page_def isElementVisible_def)

text \<open>
  Claim C4. \<open>isRegistrationSuccessful\<close> returns a boolean for every page and never
  throws (its model has no error result). When the \<open>try\<close> block returns, that value is the
  result. Whenever a call of its \<open>try\<close> block throws, the result is false: this holds for a throw of the block in general, and in particular
  for the settle delay, the URL read, the count of error elements on the registration
  page, the text read of the welcome title after its visibility check passed, and the
  read of the page content when it is reached.
\<close>

theorem isRegistrationSuccessful_fail_closed:
  "(isRegistrationSuccessful_try s = Inl e \<longrightarrow> isRegistrationSuccessful s = False)
   \<and> (waitForTimeout s 2000 = Some e \<longrightarrow> isRegistrationSuccessful s = False)
   \<and> (url s = Inl e \<longrightarrow> isRegistrationSuccessful s = False)
   \<and> (url s = Inr u \<and> js_includes u ''register.htm'' \<and> locator_count s ''.error'' = Inl e
        \<longrightarrow> isRegistrationSuccessful s = False)
   \<and> (\<not> isElementVisible s successMessage \<and> \<not> isElementVisible s usernameParagraph
        \<and> isElementVisible s welcomeMessage \<and> getTextContent s welcomeMessage = Inl e
        \<longrightarrow> isRegistrationSuccessful s = False)
   \<and> (\<not> isElementVisible s successMessage \<and> \<not> isElementVisible s usernameParagraph
        \<and> \<not> isElementVisible s welcomeMessage \<and> \<not> isElementVisible s accountServicesSection
        \<and> url s = Inr u \<and> js_includes u ''register.htm'' \<and> \<not> js_includes u ''overview''
        \<and> \<not> js_includes u ''account'' \<and> content s = Inl e
        \<longrightarrow> isRegistrationSuccessful s = False)
   \<and> (isRegistrationSuccessful_try s = Inr r \<longrightarrow> isRegistrationSuccessful s = snd r)"
proof -
  have h: "isRegistrationSuccessful_try s = Inr r \<longrightarrow> isRegistrationSuccessful s = snd r"
    by (simp add: isRegistrationSuccessful_def isRegistrationSuccessful_console_def)
  have a: "isRegistrationSuccessful_try s = Inl e \<longrightarrow> isRegistrationSuccessful s = False"
    by (simp add: isRegistrationSuccessful_def isRegistrationSuccessful_console_def)
  have b: "waitForTimeout s 2000 = Some e \<longrightarrow> isRegistrationSuccessful s = False"
    by (simp add: isRegistrationSuccessful_def isRegistrationSuccessful_console_def
        isRegistrationSuccessful_try_def)
  have c: "url s = Inl e \<longrightarrow> isRegistrationSuccessful s = False"
    by (simp add: isRegistrationSuccessful_def isRegistrationSuccessful_console_def
        isRegistrationSuccessful_try_def getCurrentUrl_def split: option.split)
  have d: "url s = Inr u \<and> js_includes u ''register.htm'' \<and> locator_count s ''.error'' = Inl e
        \<longrightarrow> isRegistrationSuccessful s = False"
    by (simp add: isRegistrationSuccessful_def isRegistrationSuccessful_console_def
        isRegistrationSuccessful_try_def getCurrentUrl_def check_errors_on_register_page_def
        split: option.split)
  have f: "\<not> isElementVisible s successMessage \<and> \<not> isElementVisible s usernameParagraph
        \<and> isElementVisible s welcomeMessage \<and> getTextContent s welcomeMessage = Inl e
        \<longrightarrow> isRegistrationSuccessful s = False"
    by (auto simp: isRegistrationSuccessful_def isRegistrationSuccessful_console_def
        isRegistrationSuccessful_try_def success_methods_1_to_3_def
        dest: check_errors_returns_false split: option.split sum.split)
  have g: "\<not> isElementVisible s successMessage \<and> \<not> isElementVisible s usernameParagraph
        \<and> \<not> isElementVisible s welcomeMessage \<and> \<not> isElementVisible s accountServicesSection
        \<and> url s = Inr u \<and> js_includes u ''register.htm'' \<and> \<not> js_includes u ''overview''
        \<and> \<not> js_includes u ''account'' \<and> content s = Inl e
        \<longrightarrow> isRegistrationSuccessful s = False"
    by (simp add: detector_defs split: option.split sum.split)
  from a b c d f g h show ?thesis by blast
qed

theorem isRegistrationSuccessful_fail_closed_witness:
  "isRegistrationSuccessful_try closed_page = Inl (Error ''Target closed'')
   \<and> waitForTimeout closed_page 2000 = Some (Error ''Target closed'')
   \<and> url closed_page = Inl (Error ''Target closed'')
   \<and> isRegistrationSuccessful closed_page = False
   \<and> locator_count count_fails_page ''.error'' = Inl (Error ''Target closed'')
   \<and> isRegistrationSuccessful count_fails_page = False
   \<and> isElementVisible title_unreadable_page welcomeMessage
   \<and> getTextContent title_unreadable_page welcomeMessage = Inl (Error ''Timeout exceeded'')
   \<and> isRegistrationSuccessful title_unreadable_page = False
   \<and> content content_fails_page = Inl (Error ''Target closed'')
   \<and> isRegistrationSuccessful content_fails_page = False"
proof -
  note t = isRegistrationSuccessful_fail_closed
  have a: "isRegistrationSuccessful_try closed_page = Inl (Error ''Target closed'')"
    "waitForTimeout closed_page 2000 = Some (Error ''Target closed'')"
    "url closed_page = Inl (Error ''Target closed'')"
    by (simp_all add: closed_page_def isRegistrationSuccessful_try_def)
  have b: "url count_fails_page = Inr ''https://parabank.parasoft.com/parabank/register.htm''"
    "locator_count count_fails_page ''.error'' = Inl (Error ''Target closed'')"
    by (simp_all add: count_fails_page_def blank_page_def)
  have c: "\<not> isElementVisible title_unreadable_page successMessage"
    "\<not> isElementVisible title_unreadable_page usernameParagraph"
    "isElementVisible title_unreadable_page welcomeMessage"
    "getTextContent title_unreadable_page welcomeMessage = Inl (Error ''Timeout exceeded'')"
    by (simp_all add: title_unreadable_page_def blank_page_def isElementVisible_def
        getTextContent_def waitForElement_def timeout_def selector_defs)
  have d: "\<not> isElementVisible content_fails_page successMessage"
    "\<not> isElementVisible content_fails_page usernameParagraph"
    "\<not> isElementVisible content_fails_page welcomeMessage"
    "\<not> isElementVisible content_fails_page accountServicesSection"
    "url content_fails_page = Inr ''https://parabank.parasoft.com/parabank/register.htm''"
    "content content_fails_page = Inl (Error ''Target closed'')"
    by (simp_all add: content_fails_page_def blank_page_def isElementVisible_def)
  have u: "js_includes ''https://parabank.parasoft.com/parabank/register.htm'' ''register.htm''"
    "\<not> js_includes ''https://parabank.parasoft.com/parabank/register.htm'' ''overview''"
    "\<not> js_includes ''https://parabank.parasoft.com/parabank/register.htm'' ''account''"
    by simp_all
  have "isRegistrationSuccessful closed_page = False"
    using t [of closed_page "Error ''Target closed''" "[]"] a(1) by (simp only: simp_thms)
  moreover have "isRegistrationSuccessful count_fails_page = False"
    using t [of count_fails_page "Error ''Target closed''"
        "''https://parabank.parasoft.com/parabank/register.htm''"] b u(1)
    by (simp only: simp_thms)
  moreover have "isRegistrationSuccessful title_unreadable_page = False"
    using t [of title_unreadable_page "Error ''Timeout exceeded''" "[]"] c
    by (simp only: simp_thms)
  moreover have "isRegistrationSuccessful content_fails_page = False"
    using t [of content_fails_page "Error ''Target closed''"
        "''https://parabank.parasoft.com/parabank/register.htm''"] d u
    by (simp only: simp_thms)
  ultimately show ?thesis using a b c d by (intro conjI)
qed

text \<open>
  Claim C5, as the code has it. A visibility lookup is one call of \<open>waitForSelector\<close>
  with 5000 ms. The result of \<open>isRegistrationSuccessful\<close> depends on these lookups only
  through whether they succeed: a lookup that throws, with any exception, counts as not
  visible and the later signals still decide. The text read of the welcome title is
  different: once the title is visible, the result can only be true if
  \<open>getTextContent\<close> returns a string; if it throws or returns \<open>null\<close>, the result is
  false whatever the later signals are.

  The counterexample: on \<open>title_unreadable_page\<close> the title is visible, its text read
  throws, and the account services section is visible; the result is false, while it is
  true on \<open>services_page\<close>, where the title is simply not visible.
\<close>

theorem text_read_failure_counterexample:
  "isElementVisible title_unreadable_page welcomeMessage
   \<and> getTextContent title_unreadable_page welcomeMessage = Inl (Error ''Timeout exceeded'')
   \<and> isElementVisible title_unreadable_page accountServicesSection
   \<and> isRegistrationSuccessful title_unreadable_page = False
   \<and> \<not> isElementVisible services_page welcomeMessage
   \<and> isElementVisible services_page accountServicesSection
   \<and> isRegistrationSuccessful services_page = True"
  by (simp add: title_unreadable_page_def services_page_def blank_page_def detector_defs
      isElementVisible_def getTextContent_def waitForElement_def timeout_def selector_defs)

lemma methods_4_to_6_verdict:
  "(case success_methods_4_to_6 s u of Inl e \<Rightarrow> False | Inr r \<Rightarrow> snd r) \<longleftrightarrow>
     (waitForSelector s accountServicesSection 5000 = None \<or>
      js_includes u ''overview'' \<or> js_includes u ''account'' \<or>
      \<not> js_includes u ''register.htm'' \<or>
      (\<exists>pageContent. content s = Inr pageContent \<and>
         (js_includes (toLowerCase pageContent) ''account was created'' \<or>
          js_includes (toLowerCase pageContent) ''welcome'' \<or>
          js_includes (toLowerCase pageContent) ''successful'')))"
  by (auto simp: success_methods_4_to_6_def isElementVisible_def Let_def
      split: sum.splits option.splits)

lemma methods_1_to_3_verdict:
  "(case success_methods_1_to_3 s of
      Inl e \<Rightarrow> False
    | Inr (Some r) \<Rightarrow> snd r
    | Inr None \<Rightarrow> later) \<longleftrightarrow>
     (waitForSelector s successMessage 5000 = None \<or>
      waitForSelector s usernameParagraph 5000 = None \<or>
      (if waitForSelector s welcomeMessage 5000 = None then
         (\<exists>welcomeText. getTextContent s welcomeMessage = Inr (Some welcomeText) \<and>
            (js_includes welcomeText ''Welcome'' \<or> later))
       else later))"
  by (auto simp: success_methods_1_to_3_def isElementVisible_def
      split: sum.splits option.splits)

lemma check_errors_verdict:
  "(case check_errors_on_register_page s u of
      Inl e \<Rightarrow> False
    | Inr (Some r) \<Rightarrow> snd r
    | Inr None \<Rightarrow> later) \<longleftrightarrow>
     ((js_includes u ''register.htm'' \<longrightarrow> locator_count s ''.error'' = Inr 0) \<and> later)"
  by (auto simp: check_errors_on_register_page_def split: sum.splits option.splits)

lemma isRegistrationSuccessful_verdict:
  "isRegistrationSuccessful s \<longleftrightarrow>
     waitForTimeout s 2000 = None \<and>
     (\<exists>u. url s = Inr u \<and>
        (case check_errors_on_register_page s u of
           Inl e \<Rightarrow> False
         | Inr (Some r) \<Rightarrow> snd r
         | Inr None \<Rightarrow>
             (case success_methods_1_to_3 s of
                Inl e \<Rightarrow> False
              | Inr (Some r) \<Rightarrow> snd r
              | Inr None \<Rightarrow>
                  (case success_methods_4_to_6 s u of Inl e \<Rightarrow> False | Inr r \<Rightarrow> snd r))))"
  by (auto simp: isRegistrationSuccessful_def isRegistrationSuccessful_console_def
      isRegistrationSuccessful_try_def getCurrentUrl_def split: sum.splits option.splits)

text \<open>Claim C5, amended: the characterisation of the result described above.\<close>

theorem visibility_failures_are_tolerated:
  "isRegistrationSuccessful s \<longleftrightarrow>
     waitForTimeout s 2000 = None \<and>
     (\<exists>currentUrl. url s = Inr currentUrl \<and>
        (js_includes currentUrl ''register.htm'' \<longrightarrow> locator_count s ''.error'' = Inr 0) \<and>
        (waitForSelector s successMessage 5000 = None \<or>
         waitForSelector s usernameParagraph 5000 = None \<or>
         (let later =
                (waitForSelector s accountServicesSection 5000 = None \<or>
                 js_includes currentUrl ''overview'' \<or> js_includes currentUrl ''account'' \<or>
                 \<not> js_includes currentUrl ''register.htm'' \<or>
                 (\<exists>pageContent. content s = Inr pageContent \<and>
                    (js_includes (toLowerCase pageContent) ''account was created'' \<or>
                     js_includes (toLowerCase pageContent) ''welcome'' \<or>
                     js_includes (toLowerCase pageContent) ''successful'')))
          in if waitForSelector s welcomeMessage 5000 = None then
               (\<exists>welcomeText. getTextContent s welcomeMessage = Inr (Some welcomeText) \<and>
                  (js_includes welcomeText ''Welcome'' \<or> later))
             else later)))"
  unfolding isRegistrationSuccessful_verdict check_errors_verdict methods_1_to_3_verdict
    methods_4_to_6_verdict Let_def
  by (rule refl)

theorem visibility_failures_are_tolerated_witness:
  "waitForSelector services_page successMessage 5000 = Some (Error ''Timeout exceeded'')
   \<and> waitForSelector services_page usernameParagraph 5000 = Some (Error ''Timeout exceeded'')
   \<and> waitForSelector services_page welcomeMessage 5000 = Some (Error ''Timeout exceeded'')
   \<and> waitForSelector services_page accountServicesSection 5000 = None
   \<and> locator_count services_page ''.error'' = Inr 0
   \<and> isRegistrationSuccessful services_page"
  using visibility_failures_are_tolerated [of services_page]
  by (simp add: services_page_def blank_page_def selector_defs)

text \<open>
  Claim C6. On a page whose URL ends in \<open>register.htm\<close>, with no error element, none
  of the four success elements visible, and a page content that contains
  \<open>Your account was created successfully\<close>, \<open>isRegistrationSuccessful\<close> returns true
  (the settle delay having completed). The branch taken is the one of the page content
  unless the URL also contains \<open>overview\<close> or \<open>account\<close>, which method 5 accepts
  first.
\<close>

theorem raw_text_fallback:
  assumes "waitForTimeout s 2000 = None"
    and "url s = Inr currentUrl"
    and "suffix ''register.htm'' currentUrl"
    and "locator_count s ''.error'' = Inr 0"
    and "\<not> isElementVisible s successMessage"
    and "\<not> isElementVisible s usernameParagraph"
    and "\<not> isElementVisible s welcomeMessage"
    and "\<not> isElementVisible s accountServicesSection"
    and "content s = Inr pageContent"
    and "js_includes pageContent ''Your account was created successfully''"
  shows "isRegistrationSuccessful s = True
    \<and> (\<not> js_includes currentUrl ''overview'' \<and> \<not> js_includes currentUrl ''account'' \<longrightarrow>
         isRegistrationSuccessful_console s
           = ([[Str ''Registration success detected: Page contains success content'']], True))"
proof -
  have reg: "js_includes currentUrl ''register.htm''"
    using assms(3) by (rule js_includes_suffix)
  have low: "js_includes (toLowerCase pageContent) ''account was created''"
    using assms(10) by (rule success_sentence_has_success_content)
  have pre: "check_errors_on_register_page s currentUrl = Inr None"
    using reg assms(4) by (simp add: check_errors_on_register_page_def)
  have m13: "success_methods_1_to_3 s = Inr None"
    using assms(5-7) by (simp add: success_methods_1_to_3_def)
  have body: "isRegistrationSuccessful_try s = success_methods_4_to_6 s currentUrl"
    using assms(1,2) pre m13 by (simp add: isRegistrationSuccessful_try_def getCurrentUrl_def)
  have m46: "\<exists>out. success_methods_4_to_6 s currentUrl = Inr (out, True)"
    using assms(8,9) low by (simp add: success_methods_4_to_6_def)
  have m6: "\<not> js_includes currentUrl ''overview'' \<and> \<not> js_includes currentUrl ''account'' \<longrightarrow>
      success_methods_4_to_6 s currentUrl
        = Inr ([[Str ''Registration success detected: Page contains success content'']], True)"
    using assms(8,9) low reg by (simp add: success_methods_4_to_6_def)
  from body m46 m6 show ?thesis
    by (auto simp: isRegistrationSuccessful_def isRegistrationSuccessful_console_def)
qed

theorem raw_text_fallback_witness:
  "waitForTimeout created_text_page 2000 = None
   \<and> url created_text_page = Inr ''https://parabank.parasoft.com/parabank/register.htm''
   \<and> suffix ''register.htm'' ''https://parabank.parasoft.com/parabank/register.htm''
   \<and> locator_count created_text_page ''.error'' = Inr 0
   \<and> \<not> isElementVisible created_text_page successMessage
   \<and> \<not> isElementVisible created_text_page usernameParagraph
   \<and> \<not> isElementVisible created_text_page welcomeMessage
   \<and> \<not> isElementVisible created_text_page accountServicesSection
   \<and> content created_text_page = Inr ''<p>Your account was created successfully.</p>''
   \<and> js_includes ''<p>Your account was created successfully.</p>''
         ''Your account was created successfully''
   \<and> isRegistrationSuccessful created_text_page = True
   \<and> isRegistrationSuccessful_console created_text_page
         = ([[Str ''Registration success detected: Page contains success content'']], True)"
proof -
  have suf: "suffix ''register.htm'' ''https://parabank.parasoft.com/parabank/register.htm''"
    by (simp add: suffix_def)
  have inc: "js_includes ''<p>Your account was created successfully.</p>''
         ''Your account was created successfully''"
    by simp
  have u1: "\<not> js_includes ''https://parabank.parasoft.com/parabank/register.htm'' ''overview''"
    by simp
  have u2: "\<not> js_includes ''https://parabank.parasoft.com/parabank/register.htm'' ''account''"
    by simp
  have vis: "\<not> isElementVisible created_text_page successMessage"
    "\<not> isElementVisible created_text_page usernameParagraph"
    "\<not> isElementVisible created_text_page welcomeMessage"
    "\<not> isElementVisible created_text_page accountServicesSection"
    by (simp_all add: created_text_page_def blank_page_def isElementVisible_def)
  have rest: "waitForTimeout created_text_page 2000 = None"
    "url created_text_page = Inr ''https://parabank.parasoft.com/parabank/register.htm''"
    "locator_count created_text_page ''.error'' = Inr 0"
    "content created_text_page = Inr ''<p>Your account was created successfully.</p>''"
    by (simp_all add: created_text_page_def blank_page_def)
  from raw_text_fallback [OF rest(1) rest(2) suf rest(3) vis rest(4) inc] u1 u2
  show ?thesis using suf inc vis rest by blast
qed

section \<open>Collecting the error messages\<close>

lemmas trim_eval = trim_def trimStart.simps trimEnd.simps white_space_def suffix_to_prefix

lemma trimStart_no_leading: "find (\<lambda>w. prefix w (trimStart s)) white_space = None"
proof (induction s rule: trimStart.induct)
  case (1 s)
  show ?case
  proof (cases "find (\<lambda>w. prefix w s) white_space")
    case None
    then have "trimStart s = s" by (subst trimStart.simps) simp
    with None show ?thesis by simp
  next
    case (Some w)
    then have "trimStart s = trimStart (drop (length w) s)"
      by (subst trimStart.simps) simp
    with "1.IH" [OF Some] show ?thesis by simp
  qed
qed

lemma trimEnd_no_trailing: "find (\<lambda>w. suffix w (trimEnd s)) white_space = None"
proof (induction s rule: trimEnd.induct)
  case (1 s)
  show ?case
  proof (cases "find (\<lambda>w. suffix w s) white_space")
    case None
    then have "trimEnd s = s" by (subst trimEnd.simps) simp
    with None show ?thesis by simp
  next
    case (Some w)
    then have "trimEnd s = trimEnd (take (length s - length w) s)"
      by (subst trimEnd.simps) simp
    with "1.IH" [OF Some] show ?thesis by simp
  qed
qed

lemma trimEnd_prefix: "prefix (trimEnd s) s"
proof (induction s rule: trimEnd.induct)
  case (1 s)
  show ?case
  proof (cases "find (\<lambda>w. suffix w s) white_space")
    case None
    then have "trimEnd s = s" by (subst trimEnd.simps) simp
    then show ?thesis by simp
  next
    case (Some w)
    then have "trimEnd s = trimEnd (take (length s - length w) s)"
      by (subst trimEnd.simps) simp
    moreover have "prefix (take (length s - length w) s) s"
      by (rule take_is_prefix)
    ultimately show ?thesis
      using "1.IH" [OF Some] by (auto intro: prefix_order.order_trans)
  qed
qed

lemma white_space_nonempty: "w \<in> set white_space \<Longrightarrow> w \<noteq> []"
  by (auto simp: white_space_def)

lemma trim_no_leading: "find (\<lambda>w. prefix w (trim s)) white_space = None"
proof -
  have "\<not> prefix w (trim s)" if w: "w \<in> set white_space" for w
  proof
    assume "prefix w (trim s)"
    then have "prefix w (trimStart s)"
      using trimEnd_prefix [of "trimStart s"]
      unfolding trim_def by (rule prefix_order.order_trans)
    with w trimStart_no_leading [of s] show False
      by (simp add: find_None_iff)
  qed
  then show ?thesis by (simp add: find_None_iff)
qed

lemma trim_no_trailing: "find (\<lambda>w. suffix w (trim s)) white_space = None"
  unfolding trim_def by (rule trimEnd_no_trailing)

lemma trim_trim: "trim (trim s) = trim s"
proof -
  have "trimStart (trim s) = trim s"
    using trim_no_leading [of s] by (subst trimStart.simps) simp
  moreover have "trimEnd (trim s) = trim s"
    using trim_no_trailing [of s] by (subst trimEnd.simps) simp
  ultimately show ?thesis by (simp add: trim_def [of "trim s"])
qed

lemma trimmed_ends:
  assumes "trim m = m" and "w \<in> set white_space"
  shows "\<not> prefix w m \<and> \<not> suffix w m"
  using trim_no_leading [of m] trim_no_trailing [of m] assms
  by (simp add: find_None_iff)

lemma collect_error_texts_messages:
  "\<forall>m \<in> set acc. m \<noteq> [] \<and> trim m = m \<Longrightarrow>
   \<forall>m \<in> set (snd (collect_error_texts els acc)). m \<noteq> [] \<and> trim m = m"
proof (induction els arbitrary: acc)
  case Nil
  then show ?case by simp
next
  case (Cons el els)
  show ?case
  proof (cases el)
    case (Inl e)
    then have "snd (collect_error_texts (el # els) acc) = acc" by simp
    with Cons.prems show ?thesis by (simp only:)
  next
    case (Inr t)
    show ?thesis
    proof (cases t)
      case None
      with Inr have "snd (collect_error_texts (el # els) acc) = acc" by simp
      with Cons.prems show ?thesis by (simp only:)
    next
      case (Some tx)
      show ?thesis
      proof (cases "trim tx = []")
        case True
        with Inr Some have "collect_error_texts (el # els) acc = collect_error_texts els acc"
          by simp
        with Cons.IH [OF Cons.prems] show ?thesis by (simp only:)
      next
        case False
        with Inr Some have eq: "collect_error_texts (el # els) acc
            = collect_error_texts els (acc @ [trim tx])"
          by simp
        have "\<forall>m \<in> set (acc @ [trim tx]). m \<noteq> [] \<and> trim m = m"
          using Cons.prems False by (simp add: trim_trim)
        from Cons.IH [OF this] eq show ?thesis by (simp only:)
      qed
    qed
  qed
qed

lemma collect_error_texts_readable:
  "collect_error_texts (map (\<lambda>t. Inr (Some t)) texts @ rest) acc
     = collect_error_texts rest (acc @ filter (\<lambda>m. m \<noteq> []) (map trim texts))"
proof (induction texts arbitrary: acc)
  case Nil
  show ?case by simp
next
  case (Cons t texts)
  show ?case
  proof (cases "trim t = []")
    case True
    then show ?thesis using Cons.IH [of acc] by simp
  next
    case False
    then show ?thesis using Cons.IH [of "acc @ [trim t]"] by simp
  qed
qed

lemma collect_error_texts_unreadable:
  "\<forall>t. bad \<noteq> Inr (Some t) \<Longrightarrow> snd (collect_error_texts (bad # rest) acc) = acc"
proof (cases bad)
  case (Inl e)
  then show ?thesis by simp
next
  case (Inr t)
  assume "\<forall>t. bad \<noteq> Inr (Some t)"
  with Inr have "t = None" by (cases t) simp_all
  with Inr show ?thesis by simp
qed

text \<open>
  Claim C7, the counterexample to its last part: the text of the second error element
  cannot be read, and the method returns the message of the first one, not an empty
  array.
\<close>

theorem getErrorMessages_partial_counterexample:
  "query_all partial_errors_page errorMessage
     = Inr [Inr (Some '' This username already exists. ''),
            Inl (Error ''Element is not attached to the DOM'')]
   \<and> getErrorMessages partial_errors_page = [''This username already exists.'']"
  by (simp add: partial_errors_page_def blank_page_def getErrorMessages_def trim_eval)

text \<open>
  Claim C7, amended. \<open>getErrorMessages\<close> never throws (its model has no error result).
  Every string it returns is not empty and trimmed: \<open>trim\<close> leaves it as it is, and no
  white space character of ECMAScript is at its start or at its end. With no error
  element it returns the empty array, and so it does when the query for the elements
  throws. When all texts can be read it returns the trimmed texts that are not empty, in
  order; when the text of an element cannot be read (the read throws or gives \<open>null\<close>)
  it returns those of the elements before that one.
\<close>

theorem getErrorMessages_collects:
  "(\<forall>m \<in> set (getErrorMessages s).
      m \<noteq> [] \<and> trim m = m \<and> (\<forall>w \<in> set white_space. \<not> prefix w m \<and> \<not> suffix w m))
   \<and> (query_all s errorMessage = Inr [] \<longrightarrow> getErrorMessages s = [])
   \<and> (query_all s errorMessage = Inl e \<longrightarrow> getErrorMessages s = [])
   \<and> (query_all s errorMessage = Inr (map (\<lambda>t. Inr (Some t)) texts) \<longrightarrow>
        getErrorMessages s = filter (\<lambda>m. m \<noteq> []) (map trim texts))
   \<and> (query_all s errorMessage = Inr (map (\<lambda>t. Inr (Some t)) texts @ bad # rest)
        \<and> (\<forall>t. bad \<noteq> Inr (Some t)) \<longrightarrow>
        getErrorMessages s = filter (\<lambda>m. m \<noteq> []) (map trim texts))"
proof -
  have a0: "\<forall>m \<in> set (getErrorMessages s). m \<noteq> [] \<and> trim m = m"
    using collect_error_texts_messages [of "[]"]
    by (auto simp: getErrorMessages_def split: sum.splits)
  have a: "\<forall>m \<in> set (getErrorMessages s).
      m \<noteq> [] \<and> trim m = m \<and> (\<forall>w \<in> set white_space. \<not> prefix w m \<and> \<not> suffix w m)"
  proof
    fix m
    assume "m \<in> set (getErrorMessages s)"
    with a0 have m: "m \<noteq> []" "trim m = m" by simp_all
    from m(2) have "\<forall>w \<in> set white_space. \<not> prefix w m \<and> \<not> suffix w m"
      by (intro ballI) (rule trimmed_ends)
    with m show "m \<noteq> [] \<and> trim m = m
        \<and> (\<forall>w \<in> set white_space. \<not> prefix w m \<and> \<not> suffix w m)"
      by (intro conjI)
  qed
  have b: "query_all s errorMessage = Inr [] \<longrightarrow> getErrorMessages s = []"
    by (simp add: getErrorMessages_def)
  have c: "query_all s errorMessage = Inl e \<longrightarrow> getErrorMessages s = []"
    by (simp add: getErrorMessages_def)
  have d: "query_all s errorMessage = Inr (map (\<lambda>t. Inr (Some t)) texts) \<longrightarrow>
        getErrorMessages s = filter (\<lambda>m. m \<noteq> []) (map trim texts)"
    using collect_error_texts_readable [of texts "[]" "[]"]
    by (simp add: getErrorMessages_def)
  have f: "query_all s errorMessage = Inr (map (\<lambda>t. Inr (Some t)) texts @ bad # rest)
        \<and> (\<forall>t. bad \<noteq> Inr (Some t)) \<longrightarrow>
        getErrorMessages s = filter (\<lambda>m. m \<noteq> []) (map trim texts)"
  proof (intro impI, elim conjE)
    assume q: "query_all s errorMessage = Inr (map (\<lambda>t. Inr (Some t)) texts @ bad # rest)"
      and bad: "\<forall>t. bad \<noteq> Inr (Some t)"
    have "snd (collect_error_texts (bad # rest) acc) = acc" for acc
      using bad by (rule collect_error_texts_unreadable)
    then show "getErrorMessages s = filter (\<lambda>m. m \<noteq> []) (map trim texts)"
      using q by (simp add: getErrorMessages_def collect_error_texts_readable)
  qed
  from a b c d f show ?thesis by (intro conjI)
qed

theorem getErrorMessages_collects_witness:
  "query_all blank_error_page errorMessage
     = Inr (map (\<lambda>t. Inr (Some t))
              [no_break_space,
               no_break_space @ ''Username already exists.'' @ no_break_space,
               ''Passwords did not match. '']
            @ Inr None # [Inr (Some ''not read'')])
   \<and> getErrorMessages blank_error_page
       = [''Username already exists.'', ''Passwords did not match.'']
   \<and> trim ''Username already exists.'' = ''Username already exists.''
   \<and> trim ''Passwords did not match.'' = ''Passwords did not match.''"
proof -
  let ?texts = "[no_break_space,
      no_break_space @ ''Username already exists.'' @ no_break_space,
      ''Passwords did not match. '']"
  have q: "query_all blank_error_page errorMessage
     = Inr (map (\<lambda>t. Inr (Some t)) ?texts @ Inr None # [Inr (Some ''not read'')])"
    by (simp add: blank_error_page_def blank_page_def)
  have b: "\<forall>t. (Inr None :: error + string option) \<noteq> Inr (Some t)"
    by simp
  have t1: "trim no_break_space = []"
    by (simp add: no_break_space_def trim_eval)
  have t2: "trim (no_break_space @ ''Username already exists.'' @ no_break_space)
      = ''Username already exists.''"
    by (simp add: no_break_space_def trim_eval)
  have t3: "trim ''Passwords did not match. '' = ''Passwords did not match.''"
    by (simp add: trim_eval)
  have f: "filter (\<lambda>m. m \<noteq> []) (map trim ?texts)
      = [''Username already exists.'', ''Passwords did not match.'']"
    unfolding list.map t1 t2 t3 by simp
  note t = getErrorMessages_collects
    [of blank_error_page "Error []" ?texts "Inr None" "[Inr (Some ''not read'')]"]
  from t q b have "getErrorMessages blank_error_page
      = filter (\<lambda>m. m \<noteq> []) (map trim ?texts)"
    by (simp only: simp_thms)
  with f have g: "getErrorMessages blank_error_page
      = [''Username already exists.'', ''Passwords did not match.'']"
    by (simp only:)
  from t have "\<forall>m \<in> set (getErrorMessages blank_error_page).
      m \<noteq> [] \<and> trim m = m \<and> (\<forall>w \<in> set white_space. \<not> prefix w m \<and> \<not> suffix w m)"
    by (rule conjunct1)
  with g have "trim ''Username already exists.'' = ''Username already exists.''"
    and "trim ''Passwords did not match.'' = ''Passwords did not match.''"
    by simp_all
  with q g show ?thesis by (intro conjI)
qed

section \<open>The retry loop\<close>

text \<open>
  A generated username consists of the digits of base 36 only, so it never contains
  \<open>testuser_\<close>: in TC 001 the conditional that is meant to produce fresh data always
  takes the branch that keeps \<open>userData\<close>.
\<close>

lemma digit_char_digits36: "digit_char d \<in> set digits36"
  unfolding digit_char_def by (rule nth_mem) (simp add: digits36_def)

lemma toString_radix_digits36: "set (toString_radix radix n) \<subseteq> set digits36"
proof (induction radix n rule: toString_radix.induct)
  case (1 radix n)
  show ?case
  proof (cases "n < radix \<or> radix < 2")
    case True
    then have "toString_radix radix n = [digit_char n]"
      by (subst toString_radix.simps) simp
    then show ?thesis by (simp add: digit_char_digits36)
  next
    case False
    then have "toString_radix radix n
        = toString_radix radix (n div radix) @ [digit_char (n mod radix)]"
      by (subst toString_radix.simps) simp
    with 1 False show ?thesis by (simp add: digit_char_digits36)
  qed
qed

lemma js_includes_set: "js_includes s t \<Longrightarrow> set t \<subseteq> set s"
  by (simp add: js_includes_sublist set_mono_sublist)

lemma generated_username_digits36:
  "set (username (generateUniqueUser timestamp randomNum randomDigits)) \<subseteq> set digits36"
  using toString_radix_digits36 [of 36 timestamp] toString_radix_digits36 [of 36 randomNum]
    digit_char_digits36
  by (auto simp: generateUniqueUser_def digits36_def)

lemma generated_username_not_testuser:
  "\<not> js_includes (username (generateUniqueUser timestamp randomNum randomDigits)) ''testuser_''"
proof
  assume "js_includes (username (generateUniqueUser timestamp randomNum randomDigits))
    ''testuser_''"
  then have "set ''testuser_''
      \<subseteq> set (username (generateUniqueUser timestamp randomNum randomDigits))"
    by (rule js_includes_set)
  with generated_username_digits36 [of timestamp randomNum randomDigits]
  have "CHR ''_'' \<in> set digits36" by auto
  then show False by (simp add: digits36_def)
qed

lemma freshUserData_generated:
  "freshUserData (generateUniqueUser timestamp randomNum randomDigits)
     = Inr (generateUniqueUser timestamp randomNum randomDigits)"
  by (simp add: freshUserData_def generated_username_not_testuser)

lemma registration_loop_retry:
  assumes "freshUserData u = Inr u"
    and "Suc attempt < maxAttempts"
    and "fillRegistrationForm (browser (Suc attempt)) u = None"
    and "validateFormData (browser (Suc attempt)) u"
    and "submitRegistration (browser (Suc attempt)) = None"
    and "\<not> isRegistrationSuccessful (result_page (browser (Suc attempt)))"
    and "hasUsernameConflict (getErrorMessages (result_page (browser (Suc attempt))))"
    and "reload (browser (Suc attempt)) = None"
    and "clickRegisterLink (browser (Suc attempt)) = None"
  shows "registration_loop browser u attempt False calls
    = registration_loop browser u (Suc attempt) False (calls @ [Fill u, Submit, Reload])"
  using assms by (subst registration_loop.simps) (simp add: Let_def)

lemma registration_loop_give_up:
  assumes "freshUserData u = Inr u"
    and "Suc attempt = maxAttempts"
    and "fillRegistrationForm (browser (Suc attempt)) u = None"
    and "validateFormData (browser (Suc attempt)) u"
    and "submitRegistration (browser (Suc attempt)) = None"
    and "\<not> isRegistrationSuccessful (result_page (browser (Suc attempt)))"
  shows "registration_loop browser u attempt False calls
    = (Inr False, calls @ [Fill u, Submit])"
  using assms by (subst registration_loop.simps) (simp add: Let_def)

lemma registration_loop_conflicts:
  assumes fresh: "freshUserData u = Inr u"
    and fill: "\<forall>n. fillRegistrationForm (browser n) u = None"
    and valid: "\<forall>n. validateFormData (browser n) u"
    and submit: "\<forall>n. submitRegistration (browser n) = None"
    and fail: "\<forall>n. \<not> isRegistrationSuccessful (result_page (browser n))"
    and conflict: "\<forall>n. hasUsernameConflict (getErrorMessages (result_page (browser n)))"
    and again: "\<forall>n. reload (browser n) = None \<and> clickRegisterLink (browser n) = None"
  shows "registration_loop browser u 0 False []
    = (Inr False, [Fill u, Submit, Reload, Fill u, Submit, Reload, Fill u, Submit])"
proof -
  have "registration_loop browser u 0 False []
      = registration_loop browser u (Suc 0) False ([] @ [Fill u, Submit, Reload])"
    using fresh fill valid submit fail conflict again
    by (intro registration_loop_retry) (simp_all add: maxAttempts_def)
  also have "\<dots> = registration_loop browser u (Suc (Suc 0)) False
      (([] @ [Fill u, Submit, Reload]) @ [Fill u, Submit, Reload])"
    using fresh fill valid submit fail conflict again
    by (intro registration_loop_retry) (simp_all add: maxAttempts_def)
  also have "\<dots> = (Inr False,
      (([] @ [Fill u, Submit, Reload]) @ [Fill u, Submit, Reload]) @ [Fill u, Submit])"
    using fresh fill valid submit fail
    by (intro registration_loop_give_up) (simp_all add: maxAttempts_def)
  finally show ?thesis by simp
qed

lemma maxAttempts_string: "toString_radix 10 maxAttempts = ''3''"
  by (simp add: maxAttempts_def toString_radix.simps digit_char_def digits36_def)

lemma conflict_page_facts:
  "\<not> isRegistrationSuccessful conflict_page"
  "hasUsernameConflict (getErrorMessages conflict_page)"
proof -
  show "\<not> isRegistrationSuccessful conflict_page"
    by (simp add: conflict_page_def blank_page_def detector_defs)
  have "getErrorMessages conflict_page = [''This username already exists.'']"
    by (simp add: conflict_page_def blank_page_def getErrorMessages_def trim_eval)
  then show "hasUsernameConflict (getErrorMessages conflict_page)"
    by (simp add: hasUsernameConflict_def toLowerCase_def toLowerCase_char_def)
qed

text \<open>
  Claim C3. With a user produced by \<open>generateUniqueUser\<close>, page-object calls that
  do not throw, a detector that returns false on every pass and error messages that
  signal a username conflict on every pass, the step makes exactly three fill and
  submit attempts, with a reload after the first and the second only, and then throws
  the error \<open>Registration failed after 3 attempts\<close>.
\<close>

theorem retry_exhaustion:
  assumes "u = generateUniqueUser timestamp randomNum randomDigits"
    and "\<forall>n. fillRegistrationForm (browser n) u = None"
    and "\<forall>n. validateFormData (browser n) u"
    and "\<forall>n. submitRegistration (browser n) = None"
    and "\<forall>n. reload (browser n) = None \<and> clickRegisterLink (browser n) = None"
    and "\<forall>n. \<not> isRegistrationSuccessful (result_page (browser n))"
    and "\<forall>n. hasUsernameConflict (getErrorMessages (result_page (browser n)))"
  shows "fill_registration_step browser u
    = (Some (Error ''Registration failed after 3 attempts''),
       [Fill u, Submit, Reload, Fill u, Submit, Reload, Fill u, Submit])"
proof -
  have "freshUserData u = Inr u"
    unfolding assms(1) by (rule freshUserData_generated)
  from registration_loop_conflicts [OF this assms(2,3,4,6,7,5)]
  show ?thesis
    by (simp add: fill_registration_step_def maxAttempts_string)
qed

theorem retry_exhaustion_witness:
  "(\<forall>n. fillRegistrationForm (conflict_browser n) first_user = None)
   \<and> (\<forall>n. validateFormData (conflict_browser n) first_user)
   \<and> (\<forall>n. submitRegistration (conflict_browser n) = None)
   \<and> (\<forall>n. reload (conflict_browser n) = None \<and> clickRegisterLink (conflict_browser n) = None)
   \<and> (\<forall>n. \<not> isRegistrationSuccessful (result_page (conflict_browser n)))
   \<and> (\<forall>n. hasUsernameConflict (getErrorMessages (result_page (conflict_browser n))))
   \<and> fill_registration_step conflict_browser first_user
       = (Some (Error ''Registration failed after 3 attempts''),
          [Fill first_user, Submit, Reload, Fill first_user, Submit, Reload,
           Fill first_user, Submit])"
proof -
  have a: "\<forall>n. fillRegistrationForm (conflict_browser n) first_user = None"
    and b: "\<forall>n. validateFormData (conflict_browser n) first_user"
    and c: "\<forall>n. submitRegistration (conflict_browser n) = None"
    and d: "\<forall>n. reload (conflict_browser n) = None \<and> clickRegisterLink (conflict_browser n) = None"
    by (simp_all add: conflict_browser_def)
  have f: "\<forall>n. \<not> isRegistrationSuccessful (result_page (conflict_browser n))"
    and g: "\<forall>n. hasUsernameConflict (getErrorMessages (result_page (conflict_browser n)))"
    by (simp_all add: conflict_browser_def conflict_page_facts)
  from retry_exhaustion [OF first_user_def a b c d f g] a b c d f g
  show ?thesis by (intro conjI)
qed

lemma first_user_username: "username first_user = ''uloyw3v28167u0jb''"
  by (simp add: first_user_def generateUniqueUser_def toString_radix.simps digit_char_def
      digits36_def)

text \<open>Every call of \<open>fillRegistrationForm\<close> made by the loop is given \<open>userData\<close> itself.\<close>

lemma freshUserData_same: "freshUserData userData = Inr fresh \<Longrightarrow> fresh = userData"
  by (auto simp: freshUserData_def split: if_splits)

lemma registration_loop_fills_userData:
  "Fill d \<in> set (snd (registration_loop browser userData attempt success calls))
   \<Longrightarrow> Fill d \<in> set calls \<or> d = userData"
proof (induction browser userData attempt success calls rule: registration_loop.induct)
  case (1 browser userData attempt success calls)
  show ?case
  proof (cases "attempt < maxAttempts \<and> \<not> success")
    case False
    with "1.prems" show ?thesis
      by (subst (asm) registration_loop.simps) simp
  next
    case True
    show ?thesis
    proof (cases "freshUserData userData")
      case (Inl e)
      with True "1.prems" show ?thesis
        by (subst (asm) registration_loop.simps) (simp add: Let_def)
    next
      case (Inr fresh)
      then have fresh: "fresh = userData" by (rule freshUserData_same)
      note ih = "1.IH" [OF True refl refl Inr [unfolded fresh], simplified]
      from "1.prems" True Inr fresh show ?thesis
        apply (subst (asm) registration_loop.simps)
        apply (simp add: Let_def split: option.splits if_splits)
        apply (auto dest: ih(1) ih(2))
        done
    qed
  qed
qed

text \<open>
  Claim C2, at the failing input: on \<open>conflict_browser\<close> the detector returns false
  and the error message signals a username conflict on every pass. The three calls of
  \<open>fillRegistrationForm\<close> all submit the username generated before the loop; no new
  user is generated for the second and third attempt.
\<close>

theorem retry_reuses_user_data:
  "(case fill_registration_step conflict_browser first_user of
      (thrown, calls) \<Rightarrow> map (\<lambda>c. case c of Fill d \<Rightarrow> username d | _ \<Rightarrow> []) calls)
     = [''uloyw3v28167u0jb'', [], [], ''uloyw3v28167u0jb'', [], [], ''uloyw3v28167u0jb'', []]"
proof -
  have "freshUserData first_user = Inr first_user"
    unfolding first_user_def by (rule freshUserData_generated)
  then have "registration_loop conflict_browser first_user 0 False []
      = (Inr False, [Fill first_user, Submit, Reload, Fill first_user, Submit, Reload,
                     Fill first_user, Submit])"
    by (rule registration_loop_conflicts) (simp_all add: conflict_browser_def conflict_page_facts)
  then show ?thesis
    by (simp add: fill_registration_step_def first_user_username)
qed

section \<open>The run recorder\<close>

lemma executeStep_returns:
  "executeStep env stepName (Inr x) k =
     ((\<lparr> step_name = stepName, step_status = PASSED, step_startTime = clock env k,
         step_endTime = Some (clock env (k + 1)), step_result = Some x, step_error = None \<rparr>,
       None), k + 2)"
  by (simp add: executeStep_def)

lemma executeStep_throws:
  "executeStep env stepName (Inl e) k =
     ((\<lparr> step_name = stepName, step_status = FAILED, step_startTime = clock env k,
         step_endTime = Some (clock env (k + 1)), step_result = None,
         step_error = Some (message e) \<rparr>,
       Some e), k + 2)"
  by (simp add: executeStep_def)

lemma push_step_returns:
  "push_step env stepName (Inr x) c k =
     (None,
      c\<lparr>steps := steps c @
          [\<lparr> step_name = stepName, step_status = PASSED, step_startTime = clock env k,
             step_endTime = Some (clock env (k + 1)), step_result = Some x,
             step_error = None \<rparr>]\<rparr>,
      k + 2)"
  by (simp add: push_step_def executeStep_returns)

lemma push_step_throws: "push_step env stepName (Inl e) c k = (Some e, c, k + 2)"
  by (simp add: push_step_def executeStep_throws)

lemma push_step_passed:
  assumes "push_step env stepName f c k = (thrown, c', k')"
    and "\<forall>st \<in> set (steps c). step_status st = PASSED"
  shows "\<forall>st \<in> set (steps c'). step_status st = PASSED"
  using assms by (cases f) (auto simp: push_step_returns push_step_throws)

lemma runTestCase001_steps_passed:
  assumes run: "runTestCase001_steps env c k = (thrown, c', k')"
    and c: "\<forall>st \<in> set (steps c). step_status st = PASSED"
  shows "\<forall>st \<in> set (steps c'). step_status st = PASSED"
proof -
  obtain t1 c1 k1 where p1:
    "push_step env ''Navigate to ParaBank homepage'' (navigate_step env) c k = (t1, c1, k1)"
    by (rule prod_cases3)
  note i1 = push_step_passed [OF p1 c]
  show ?thesis
  proof (cases t1)
    case (Some e)
    with run p1 have "c' = c1" by (simp add: runTestCase001_steps_def)
    with i1 show ?thesis by simp
  next
    case n1: None
    obtain t2 c2 k2 where p2:
      "push_step env ''Click on Register link'' (click_register_step env) c1 k1 = (t2, c2, k2)"
      by (rule prod_cases3)
    note i2 = push_step_passed [OF p2 i1]
    show ?thesis
    proof (cases t2)
      case (Some e)
      with run p1 n1 p2 have "c' = c2" by (simp add: runTestCase001_steps_def)
      with i2 show ?thesis by simp
    next
      case n2: None
      obtain t3 c3 k3 where p3:
        "push_step env ''Fill registration form with test data''
           (fill_form_step env (''testuser'' @ toString_radix 10 (clock env k2))) c2 (k2 + 1)
         = (t3, c3, k3)"
        by (rule prod_cases3)
      note i3 = push_step_passed [OF p3 i2]
      show ?thesis
      proof (cases t3)
        case (Some e)
        with run p1 n1 p2 n2 p3 have "c' = c3"
          by (simp add: runTestCase001_steps_def Let_def)
        with i3 show ?thesis by simp
      next
        case n3: None
        obtain t4 c4 k4 where p4:
          "push_step env ''Submit registration form'' (submit_step env) c3 k3 = (t4, c4, k4)"
          by (rule prod_cases3)
        note i4 = push_step_passed [OF p4 i3]
        show ?thesis
        proof (cases t4)
          case (Some e)
          with run p1 n1 p2 n2 p3 n3 p4 have "c' = c4"
            by (simp add: runTestCase001_steps_def Let_def)
          with i4 show ?thesis by simp
        next
          case n4: None
          from run p1 n1 p2 n2 p3 n3 p4 n4
          have "push_step env ''Verify welcome message with username''
               (verify_step env (''testuser'' @ toString_radix 10 (clock env k2))) c4 k4
             = (thrown, c', k')"
            by (simp add: runTestCase001_steps_def Let_def)
          from push_step_passed [OF this i4] show ?thesis .
        qed
      qed
    qed
  qed
qed

lemma recorded_steps_all_passed:
  "\<forall>st \<in> set (steps (fst (runTestCase001 env r k))). step_status st = PASSED"
proof -
  obtain thrown c' k' where run:
    "runTestCase001_steps env
       \<lparr> tc_id = ''TC 001'', tc_name = ''Verify that user can register a new customer'',
         tc_status = RUNNING, steps = [], tc_startTime = clock env k, tc_endTime = None,
         tc_error = None \<rparr> (k + 1) = (thrown, c', k')"
    by (rule prod_cases3)
  then have "\<forall>st \<in> set (steps c'). step_status st = PASSED"
    by (rule runTestCase001_steps_passed) simp
  with run show ?thesis
    by (cases thrown) (simp_all add: runTestCase001_def Let_def)
qed

text \<open>
  Claim C10. The run record made by the constructor satisfies \<open>run_record_invariant\<close>,
  and every call of \<open>runTestCase001\<close>, whether the case passes or fails, keeps it:
  \<open>totalTests\<close> is \<open>passedTests + failedTests\<close> and the length of \<open>testCases\<close>, and
  every test case in the list has status \<open>PASSED\<close> or \<open>FAILED\<close> and an end time.
\<close>

theorem run_record_invariant_kept:
  "run_record_invariant (fst (constructor env k))
   \<and> (run_record_invariant r \<longrightarrow> run_record_invariant (fst (snd (runTestCase001 env r k'))))"
proof
  show "run_record_invariant (fst (constructor env k))"
    by (simp add: constructor_def run_record_invariant_def)
next
  obtain thrown c' k'' where run:
    "runTestCase001_steps env
       \<lparr> tc_id = ''TC 001'', tc_name = ''Verify that user can register a new customer'',
         tc_status = RUNNING, steps = [], tc_startTime = clock env k', tc_endTime = None,
         tc_error = None \<rparr> (k' + 1) = (thrown, c', k'')"
    by (rule prod_cases3)
  show "run_record_invariant r \<longrightarrow> run_record_invariant (fst (snd (runTestCase001 env r k')))"
    using run
    by (cases thrown) (simp_all add: runTestCase001_def Let_def run_record_invariant_def)
qed

theorem run_record_invariant_kept_witness:
  "fst (snd (runTestCase001 offline_environment (fst (constructor offline_environment 0)) 1))
     = \<lparr> startTime = 1700000000000, endTime = None, totalTests = 1, passedTests = 0,
         failedTests = 1,
         testCases =
           [\<lparr> tc_id = ''TC 001'', tc_name = ''Verify that user can register a new customer'',
              tc_status = FAILED, steps = [], tc_startTime = 1700000000001,
              tc_endTime = Some 1700000000004,
              tc_error = Some ''net::ERR_NAME_NOT_RESOLVED'' \<rparr>] \<rparr>"
proof -
  have n: "navigate_step offline_environment = Inl (Error ''net::ERR_NAME_NOT_RESOLVED'')"
    by (simp add: navigate_step_def offline_environment_def)
  have c: "clock offline_environment = (\<lambda>k. 1700000000000 + k)"
    by (simp add: offline_environment_def happy_environment_def)
  from run_record_invariant_kept
    [of offline_environment 0 "fst (constructor offline_environment 0)" 1]
  have "run_record_invariant
     (fst (snd (runTestCase001 offline_environment (fst (constructor offline_environment 0)) 1)))"
    by (simp only: simp_thms)
  then show ?thesis
    by (simp add: n c runTestCase001_def runTestCase001_steps_def push_step_throws Let_def
        constructor_def)
qed

text \<open>
  Claim C8, at the failing input: the home page cannot be reached, so the function of
  the first step throws. \<open>executeStep\<close> finalizes its local step object (status
  \<open>FAILED\<close>, end time, error message) and rethrows; the object is not returned, the
  \<open>push\<close> in \<open>runTestCase001\<close> is not executed, and the failed test case is recorded
  with an empty list of steps.
\<close>

theorem failed_step_not_recorded:
  "executeStep offline_environment ''Navigate to ParaBank homepage''
       (navigate_step offline_environment) 2
     = ((\<lparr> step_name = ''Navigate to ParaBank homepage'', step_status = FAILED,
           step_startTime = 1700000000002, step_endTime = Some 1700000000003,
           step_result = None, step_error = Some ''net::ERR_NAME_NOT_RESOLVED'' \<rparr>,
         Some (Error ''net::ERR_NAME_NOT_RESOLVED'')), 4)
   \<and> fst (runTestCase001 offline_environment (fst (constructor offline_environment 0)) 1)
     = \<lparr> tc_id = ''TC 001'', tc_name = ''Verify that user can register a new customer'',
         tc_status = FAILED, steps = [], tc_startTime = 1700000000001,
         tc_endTime = Some 1700000000004, tc_error = Some ''net::ERR_NAME_NOT_RESOLVED'' \<rparr>"
proof -
  have n: "navigate_step offline_environment = Inl (Error ''net::ERR_NAME_NOT_RESOLVED'')"
    by (simp add: navigate_step_def offline_environment_def)
  have c: "clock offline_environment = (\<lambda>k. 1700000000000 + k)"
    by (simp add: offline_environment_def happy_environment_def)
  show ?thesis
    by (simp add: n c executeStep_throws runTestCase001_def runTestCase001_steps_def
        push_step_throws Let_def constructor_def)
qed

lemma happy_steps:
  "navigate_step (happy_environment\<lparr>fs_write_report := w\<rparr>)
     = Inr ''Successfully navigated to ParaBank. Title: ParaBank | Customer Created''"
  "click_register_step (happy_environment\<lparr>fs_write_report := w\<rparr>)
     = Inr (''Successfully navigated to registration page: ''
            @ ''https://parabank.parasoft.com/parabank/register.htm'')"
  "fill_form_step (happy_environment\<lparr>fs_write_report := w\<rparr>) name
     = Inr (''Form filled with username: '' @ name)"
  "submit_step (happy_environment\<lparr>fs_write_report := w\<rparr>)
     = Inr ''Registration form submitted successfully''"
  "verify_step (happy_environment\<lparr>fs_write_report := w\<rparr>) name
     = Inr (verify_title ''ParaBank | Customer Created'' @ [CHR 0x0A]
            @ (check_mark @ '' Welcome message for '' @ name @ '' displayed'') @ [CHR 0x0A]
            @ (check_mark @ '' Success message displayed''))"
  by (simp_all add: happy_environment_def navigate_step_def click_register_step_def
      fill_form_step_def submit_step_def verify_step_def find_welcome_def verify_welcome_def
      verify_success_def success_text_def)

lemma happy_run:
  "\<exists>c k'. runTestCase001_steps (happy_environment\<lparr>fs_write_report := w\<rparr>) c0 k
     = (None, c, k')"
  by (simp add: runTestCase001_steps_def Let_def happy_steps push_step_returns)

lemma happy_failedTests:
  "failedTests (fst (snd (runTestCase001 (happy_environment\<lparr>fs_write_report := w\<rparr>) r k)))
     = failedTests r"
proof -
  obtain c k' where "runTestCase001_steps (happy_environment\<lparr>fs_write_report := w\<rparr>)
       \<lparr> tc_id = ''TC 001'', tc_name = ''Verify that user can register a new customer'',
         tc_status = RUNNING, steps = [],
         tc_startTime = clock (happy_environment\<lparr>fs_write_report := w\<rparr>) k,
         tc_endTime = None, tc_error = None \<rparr> (k + 1) = (None, c, k')"
    using happy_run by blast
  then show ?thesis by (simp add: runTestCase001_def Let_def)
qed

text \<open>
  Claim C9, the counterexample: the browser starts, every step passes, so
  \<open>failedTests\<close> is 0, but the report file cannot be written; the exception of
  \<open>generateReport\<close> reaches the \<open>catch\<close> of \<open>run\<close> and the exit status is 1.
\<close>

theorem report_failure_counterexample:
  "chromium_launch unwritable_environment = None
   \<and> failedTests (snd (main unwritable_environment)) = 0
   \<and> fst (main unwritable_environment) = 1"
proof -
  have l: "chromium_launch unwritable_environment = None"
    by (simp add: unwritable_environment_def happy_environment_def)
  have w: "fs_write_report unwritable_environment = Some (Error ''EACCES: permission denied'')"
    by (simp add: unwritable_environment_def)
  have f: "failedTests (fst (snd (runTestCase001 unwritable_environment
      (fst (constructor unwritable_environment 0)) 1))) = 0"
    unfolding unwritable_environment_def happy_failedTests
    by (simp add: constructor_def)
  from l w f show ?thesis
    by (simp add: main_def run_def generateReport_def constructor_def case_prod_beta)
qed

text \<open>
  Claim C9, amended. The exit status is 0 or 1. It is not zero exactly when
  \<open>failedTests\<close> of the run record is greater than 0 at the exit, or \<open>initialize\<close>
  threw, or \<open>generateReport\<close> threw. When \<open>initialize\<close> succeeds, the run record at
  the exit is the one left by \<open>runTestCase001\<close>.
\<close>

theorem exit_status:
  "(fst (run env r k) = 0 \<or> fst (run env r k) = 1)
   \<and> (fst (run env r k) \<noteq> 0 \<longleftrightarrow>
        0 < failedTests (snd (run env r k))
        \<or> (\<exists>e. chromium_launch env = Some e) \<or> (\<exists>e. fs_write_report env = Some e))
   \<and> (chromium_launch env = None \<longrightarrow>
        snd (run env r k) = fst (snd (runTestCase001 env r k)))"
proof (cases "chromium_launch env")
  case (Some e)
  then have "run env r k = (1, r)" by (simp add: run_def)
  with Some show ?thesis by simp
next
  case launched: None
  obtain c r' k' where t: "runTestCase001 env r k = (c, r', k')"
    by (rule prod_cases3)
  show ?thesis
  proof (cases "fs_write_report env")
    case (Some e)
    with launched t have "run env r k = (1, r')"
      by (simp add: run_def generateReport_def)
    with Some launched t show ?thesis by simp
  next
    case written: None
    with launched t have "run env r k = (if 0 < failedTests r' then 1 else 0, r')"
      by (simp add: run_def generateReport_def)
    with written launched t show ?thesis by simp
  qed
qed

theorem exit_status_witness:
  "chromium_launch happy_environment = None
   \<and> fs_write_report happy_environment = None
   \<and> failedTests (snd (main happy_environment)) = 0
   \<and> fst (main happy_environment) = 0
   \<and> chromium_launch offline_environment = None
   \<and> fs_write_report offline_environment = None
   \<and> failedTests (snd (main offline_environment)) = 1
   \<and> fst (main offline_environment) = 1"
proof -
  have h: "chromium_launch happy_environment = None" "fs_write_report happy_environment = None"
    "chromium_launch offline_environment = None" "fs_write_report offline_environment = None"
    by (simp_all add: offline_environment_def happy_environment_def)
  have "failedTests (fst (snd (runTestCase001 (happy_environment\<lparr>fs_write_report := None\<rparr>)
      (fst (constructor happy_environment 0)) 1))) = 0"
    unfolding happy_failedTests by (simp add: constructor_def)
  moreover have "happy_environment\<lparr>fs_write_report := None\<rparr> = happy_environment"
    by (simp add: happy_environment_def)
  ultimately have f: "failedTests (fst (snd (runTestCase001 happy_environment
      (fst (constructor happy_environment 0)) 1))) = 0"
    by simp
  have n: "navigate_step offline_environment = Inl (Error ''net::ERR_NAME_NOT_RESOLVED'')"
    by (simp add: navigate_step_def offline_environment_def)
  have g: "failedTests (fst (snd (runTestCase001 offline_environment
      (fst (constructor offline_environment 0)) 1))) = 1"
    by (simp add: runTestCase001_def runTestCase001_steps_def n push_step_throws Let_def
        constructor_def)
  from exit_status [of happy_environment "fst (constructor happy_environment 0)" 1]
    exit_status [of offline_environment "fst (constructor offline_environment 0)" 1] h f g
  show ?thesis
    by (simp add: main_def run_def generateReport_def constructor_def case_prod_beta)
qed

end
